theory Spec2Isabelle
  imports Main "HOL-Library.AList"
begin

section \<open>The voice-chat component (VoiceChat.tsx) as a state transformer\<close>

text \<open>
  The component keeps its data in two refs (\<open>localStreamRef\<close>, \<open>peersRef\<close>), three pieces
  of React state (\<open>joined\<close>, \<open>localMuted\<close>, \<open>remoteMutedMap\<close>) and in browser objects it
  creates: media stream tracks, \<open>RTCPeerConnection\<close>s and \<open>audio\<close> elements. Browser
  objects are mutable and referenced from several places (a peer entry, the closures of
  a connection's handlers, the DOM container), so they live in stores: a list per kind of
  object, an object's identity being its index, allocation appending to the list.

  Every handler is run to completion as one step; the users effect, which starts several
  callbacks at once, runs the part of each before its first \<open>await\<close> and then the rest of
  each. What the browser decides (whether the
  microphone is granted, whether a negotiation step is rejected, whether \<open>close\<close> or
  \<open>removeChild\<close> throws) is read from an environment record given to the step.
  An exception is a value: a step returns \<open>(Inl error, state)\<close> when it throws, with the
  state as the throw leaves it, and \<open>(Inr result, state)\<close> otherwise. The calls the
  source guards with \<open>try\<close> can throw; creating a connection or an element, adding a
  track to a new connection, stopping a track and emitting on the socket cannot.
\<close>

text \<open>
  The two dictionaries of the component (\<open>peersRef.current\<close> and \<open>remoteMutedMap\<close>) are
  association lists in insertion order, as \<open>Object.keys\<close> enumerates a JavaScript object:
  assigning to a key that is present keeps its place, a new key goes to the end,
  \<open>delete\<close> removes the key.
\<close>

subsection \<open>Browser objects\<close>

datatype error = CaptureDenied | TransportError | DomError

datatype kind = Audio | Video

record MediaStreamTrack =
  kind :: kind
  enabled :: bool
  ended :: bool

record RTCPeerConnection =
  target :: string
  sink :: nat
  pc_closed :: bool
  senders :: "nat list"
  remoteDescription :: "string option"
  localDescription :: "string option"
  candidates :: "string list"

record HTMLAudioElement =
  el_muted :: bool
  srcObject :: "string option"

datatype message =
  VOICE_OFFER string string
  | VOICE_ANSWER string string
  | VOICE_ICE_CANDIDATE string string

record PeerEntry =
  pc :: nat
  audioEl :: nat
  muted :: bool

record env =
  micGrant :: "nat option"
  closeThrows :: bool
  removeChildThrows :: bool
  setRemoteDescriptionFails :: bool
  answerSdp :: "string option"
  offerSdp :: "string option"
  setLocalDescriptionFails :: bool
  addIceCandidateFails :: bool

record state =
  localStream :: "nat list option"
  peers :: "(string \<times> PeerEntry) list"
  joined :: bool
  localMuted :: bool
  remoteMutedMap :: "(string \<times> bool) list"
  audioContainer :: "nat list option"
  tracks :: "MediaStreamTrack list"
  pcs :: "RTCPeerConnection list"
  audios :: "HTMLAudioElement list"
  emitted :: "message list"
  console :: "string list"

type_synonym 'a res = "(error + 'a) \<times> state"

text \<open>The component after mounting: nothing held, the hidden container attached and empty.\<close>

definition initial :: state where
  "initial = \<lparr>localStream = None, peers = [], joined = False, localMuted = False,
     remoteMutedMap = [], audioContainer = Some [], tracks = [], pcs = [],
     audios = [], emitted = [], console = []\<rparr>"

definition upd_at :: "nat \<Rightarrow> ('a \<Rightarrow> 'a) \<Rightarrow> 'a list \<Rightarrow> 'a list" where
  "upd_at i f xs = (if i < length xs then xs[i := f (xs ! i)] else xs)"

definition emit :: "message \<Rightarrow> state \<Rightarrow> state" where
  "emit m s = s\<lparr>emitted := emitted s @ [m]\<rparr>"

definition log :: "string \<Rightarrow> state \<Rightarrow> state" where
  "log m s = s\<lparr>console := console s @ [m]\<rparr>"

text \<open>
  \<open>navigator.mediaDevices.getUserMedia({ audio: true })\<close>: rejected, or a new stream of
  fresh live audio tracks, all enabled.
\<close>

definition new_track :: MediaStreamTrack where
  "new_track = \<lparr>kind = Audio, enabled = True, ended = False\<rparr>"

definition getUserMedia :: "env \<Rightarrow> state \<Rightarrow> (nat list) res" where
  "getUserMedia env s =
     (case micGrant env of
        None \<Rightarrow> (Inl CaptureDenied, s)
      | Some n \<Rightarrow>
          (Inr [length (tracks s) ..< length (tracks s) + n],
           s\<lparr>tracks := tracks s @ replicate n new_track\<rparr>))"

definition new_pc :: "string \<Rightarrow> nat \<Rightarrow> RTCPeerConnection" where
  "new_pc remoteSocketId a =
     \<lparr>target = remoteSocketId, sink = a, pc_closed = False, senders = [],
      remoteDescription = None, localDescription = None, candidates = []\<rparr>"

definition new_audio :: HTMLAudioElement where
  "new_audio = \<lparr>el_muted = False, srcObject = None\<rparr>"

definition pc_close :: "env \<Rightarrow> nat \<Rightarrow> state \<Rightarrow> unit res" where
  "pc_close env p s =
     (if closeThrows env then (Inl TransportError, s)
      else (Inr (), s\<lparr>pcs := upd_at p (\<lambda>c. c\<lparr>pc_closed := True\<rparr>) (pcs s)\<rparr>))"

definition setRemoteDescription :: "env \<Rightarrow> nat \<Rightarrow> string \<Rightarrow> state \<Rightarrow> unit res" where
  "setRemoteDescription env p d s =
     (if setRemoteDescriptionFails env then (Inl TransportError, s)
      else (Inr (), s\<lparr>pcs := upd_at p (\<lambda>c. c\<lparr>remoteDescription := Some d\<rparr>) (pcs s)\<rparr>))"

definition setLocalDescription :: "env \<Rightarrow> nat \<Rightarrow> string \<Rightarrow> state \<Rightarrow> unit res" where
  "setLocalDescription env p d s =
     (if setLocalDescriptionFails env then (Inl TransportError, s)
      else (Inr (), s\<lparr>pcs := upd_at p (\<lambda>c. c\<lparr>localDescription := Some d\<rparr>) (pcs s)\<rparr>))"

definition createAnswer :: "env \<Rightarrow> nat \<Rightarrow> state \<Rightarrow> string res" where
  "createAnswer env p s =
     (case answerSdp env of None \<Rightarrow> (Inl TransportError, s) | Some a \<Rightarrow> (Inr a, s))"

definition createOffer :: "env \<Rightarrow> nat \<Rightarrow> state \<Rightarrow> string res" where
  "createOffer env p s =
     (case offerSdp env of None \<Rightarrow> (Inl TransportError, s) | Some a \<Rightarrow> (Inr a, s))"

definition addIceCandidate :: "env \<Rightarrow> nat \<Rightarrow> string \<Rightarrow> state \<Rightarrow> unit res" where
  "addIceCandidate env p c s =
     (if addIceCandidateFails env then (Inl TransportError, s)
      else (Inr (), s\<lparr>pcs := upd_at p (\<lambda>x. x\<lparr>candidates := candidates x @ [c]\<rparr>) (pcs s)\<rparr>))"

text \<open>
  The second guarded block of \<open>cleanupPeer\<close>: clear \<open>srcObject\<close>, then take the element
  out of its parent when it has one.
\<close>

definition detach_audio :: "env \<Rightarrow> nat \<Rightarrow> state \<Rightarrow> unit res" where
  "detach_audio env a s =
     (let s1 = s\<lparr>audios := upd_at a (\<lambda>e. e\<lparr>srcObject := None\<rparr>) (audios s)\<rparr>
      in case audioContainer s1 of
           None \<Rightarrow> (Inr (), s1)
         | Some ch \<Rightarrow>
             if a \<in> set ch
             then (if removeChildThrows env then (Inl DomError, s1)
                   else (Inr (), s1\<lparr>audioContainer := Some (removeAll a ch)\<rparr>))
             else (Inr (), s1))"

subsection \<open>createPeerConnection and cleanupPeer\<close>

definition createPeerConnection :: "env \<Rightarrow> string \<Rightarrow> state \<Rightarrow> PeerEntry res" where
  "createPeerConnection env remoteSocketId s =
     (let p = length (pcs s);
          a = length (audios s);
          s1 = s\<lparr>pcs := pcs s @ [new_pc remoteSocketId a]\<rparr>;
          s2 = s1\<lparr>audios := audios s1 @ [new_audio]\<rparr>;
          s3 = (case audioContainer s2 of
                  None \<Rightarrow> s2
                | Some ch \<Rightarrow> s2\<lparr>audioContainer := Some (ch @ [a])\<rparr>);
          r = (case localStream s3 of
                 Some st \<Rightarrow> (Inr st, s3)
               | None \<Rightarrow>
                   (case getUserMedia env s3 of
                      (Inl e, s4) \<Rightarrow> (Inl e, log ''Microphone access denied'' s4)
                    | (Inr st, s4) \<Rightarrow> (Inr st, s4\<lparr>localStream := Some st\<rparr>)))
      in case r of
           (Inl e, s5) \<Rightarrow> (Inl e, s5)
         | (Inr st, s5) \<Rightarrow>
             (let s6 = s5\<lparr>pcs := upd_at p (\<lambda>c. c\<lparr>senders := senders c @ st\<rparr>) (pcs s5)\<rparr>;
                  entry = \<lparr>pc = p, audioEl = a, muted = False\<rparr>;
                  s7 = s6\<lparr>peers := AList.update remoteSocketId entry (peers s6)\<rparr>;
                  s8 = s7\<lparr>remoteMutedMap := AList.update remoteSocketId False (remoteMutedMap s7)\<rparr>
              in (Inr entry, s8)))"

text \<open>The handlers \<open>createPeerConnection\<close> installs on the new connection.\<close>

definition onicecandidate :: "nat \<Rightarrow> string option \<Rightarrow> state \<Rightarrow> state" where
  "onicecandidate p cand s =
     (if p < length (pcs s)
      then (case cand of
              None \<Rightarrow> s
            | Some c \<Rightarrow> emit (VOICE_ICE_CANDIDATE c (target (pcs s ! p))) s)
      else s)"

definition ontrack :: "nat \<Rightarrow> string \<Rightarrow> state \<Rightarrow> state" where
  "ontrack p stream s =
     (if p < length (pcs s)
      then s\<lparr>audios := upd_at (sink (pcs s ! p)) (\<lambda>e. e\<lparr>srcObject := Some stream\<rparr>) (audios s)\<rparr>
      else s)"

definition cleanupPeer :: "env \<Rightarrow> string \<Rightarrow> state \<Rightarrow> unit res" where
  "cleanupPeer env socketId s =
     (case map_of (peers s) socketId of
        None \<Rightarrow> (Inr (), s)
      | Some entry \<Rightarrow>
          (let s1 = snd (pc_close env (pc entry) s);
               s2 = snd (detach_audio env (audioEl entry) s1);
               s3 = s2\<lparr>peers := AList.delete socketId (peers s2)\<rparr>;
               s4 = s3\<lparr>remoteMutedMap := AList.delete socketId (remoteMutedMap s3)\<rparr>
           in (Inr (), s4)))"

subsection \<open>Signaling handlers\<close>

definition handleOffer_try :: "env \<Rightarrow> string \<Rightarrow> string \<Rightarrow> state \<Rightarrow> unit res" where
  "handleOffer_try env offer senderSocketId s =
     (case createPeerConnection env senderSocketId s of
        (Inl e, s1) \<Rightarrow> (Inl e, s1)
      | (Inr entry, s1) \<Rightarrow>
          (case setRemoteDescription env (pc entry) offer s1 of
             (Inl e, s2) \<Rightarrow> (Inl e, s2)
           | (Inr u, s2) \<Rightarrow>
               (case createAnswer env (pc entry) s2 of
                  (Inl e, s3) \<Rightarrow> (Inl e, s3)
                | (Inr answer, s3) \<Rightarrow>
                    (case setLocalDescription env (pc entry) answer s3 of
                       (Inl e, s4) \<Rightarrow> (Inl e, s4)
                     | (Inr u, s4) \<Rightarrow>
                         (Inr (), emit (VOICE_ANSWER answer senderSocketId) s4)))))"

definition handleOffer :: "env \<Rightarrow> string \<Rightarrow> string \<Rightarrow> state \<Rightarrow> unit res" where
  "handleOffer env offer senderSocketId s =
     (case handleOffer_try env offer senderSocketId s of
        (Inl e, s1) \<Rightarrow> (Inr (), log ''Failed handling offer'' s1)
      | (Inr u, s1) \<Rightarrow> (Inr (), s1))"

definition handleAnswer :: "env \<Rightarrow> string \<Rightarrow> string \<Rightarrow> state \<Rightarrow> unit res" where
  "handleAnswer env answer senderSocketId s =
     (case map_of (peers s) senderSocketId of
        None \<Rightarrow> (Inr (), s)
      | Some entry \<Rightarrow>
          (case setRemoteDescription env (pc entry) answer s of
             (Inl e, s1) \<Rightarrow> (Inr (), log ''Failed to set remote answer'' s1)
           | (Inr u, s1) \<Rightarrow> (Inr (), s1)))"

definition handleIce :: "env \<Rightarrow> string \<Rightarrow> string \<Rightarrow> state \<Rightarrow> unit res" where
  "handleIce env candidate senderSocketId s =
     (case map_of (peers s) senderSocketId of
        None \<Rightarrow> (Inr (), s)
      | Some entry \<Rightarrow>
          (case addIceCandidate env (pc entry) candidate s of
             (Inl e, s1) \<Rightarrow> (Inr (), log ''Failed to add ICE candidate'' s1)
           | (Inr u, s1) \<Rightarrow> (Inr (), s1)))"

subsection \<open>The membership effects\<close>

text \<open>
  A user's \<open>socketId\<close> may be missing (\<open>None\<close>); a missing or empty identifier is
  falsy and skipped. \<open>socket.id\<close> is undefined (\<open>None\<close>) while the socket is not
  connected.
\<close>

text \<open>
  \<open>users.forEach(async (u) => ...)\<close> starts one callback per user, and each callback runs
  to its first \<open>await\<close> before the next one starts; none resumes before the loop is over.
  A callback passes the three tests and calls \<open>createPeerConnection\<close>, which runs up to
  its own \<open>await\<close>: when a stream is held there is none, the session is built and
  registered at once, and the callback waits with the entry in hand (\<open>Built\<close>); when no
  stream is held it stops at \<open>getUserMedia\<close> with the connection and the audio element
  created and nothing registered (\<open>Acquiring\<close>). After the loop the waiting callbacks
  resume in the order they started, each to its end.

  The two parts of \<open>createPeerConnection\<close> on either side of its \<open>await\<close>:
\<close>

definition createPeerConnection_begin :: "string \<Rightarrow> state \<Rightarrow> (nat \<times> nat) \<times> state" where
  "createPeerConnection_begin remoteSocketId s =
     (let p = length (pcs s);
          a = length (audios s);
          s1 = s\<lparr>pcs := pcs s @ [new_pc remoteSocketId a]\<rparr>;
          s2 = s1\<lparr>audios := audios s1 @ [new_audio]\<rparr>;
          s3 = (case audioContainer s2 of
                  None \<Rightarrow> s2
                | Some ch \<Rightarrow> s2\<lparr>audioContainer := Some (ch @ [a])\<rparr>)
      in ((p, a), s3))"

definition createPeerConnection_finish ::
  "string \<Rightarrow> nat \<Rightarrow> nat \<Rightarrow> nat list \<Rightarrow> state \<Rightarrow> PeerEntry \<times> state" where
  "createPeerConnection_finish remoteSocketId p a st s =
     (let s6 = s\<lparr>pcs := upd_at p (\<lambda>c. c\<lparr>senders := senders c @ st\<rparr>) (pcs s)\<rparr>;
          entry = \<lparr>pc = p, audioEl = a, muted = False\<rparr>;
          s7 = s6\<lparr>peers := AList.update remoteSocketId entry (peers s6)\<rparr>;
          s8 = s7\<lparr>remoteMutedMap := AList.update remoteSocketId False (remoteMutedMap s7)\<rparr>
      in (entry, s8))"

datatype pending = Built string PeerEntry | Acquiring string nat nat

definition offerUser_start ::
  "string option \<Rightarrow> string option \<Rightarrow> state \<times> pending list \<Rightarrow> state \<times> pending list" where
  "offerUser_start socketId u = (\<lambda>(s, waiting).
     (case u of
        None \<Rightarrow> (s, waiting)
      | Some i \<Rightarrow>
          if i = [] then (s, waiting)
          else if Some i = socketId then (s, waiting)
          else if map_of (peers s) i \<noteq> None then (s, waiting)
          else (case createPeerConnection_begin i s of
                  ((p, a), s1) \<Rightarrow>
                    (case localStream s1 of
                       Some st \<Rightarrow>
                         (case createPeerConnection_finish i p a st s1 of
                            (entry, s2) \<Rightarrow> (s2, waiting @ [Built i entry]))
                     | None \<Rightarrow> (s1, waiting @ [Acquiring i p a])))))"

definition offer_try :: "env \<Rightarrow> string \<Rightarrow> PeerEntry \<Rightarrow> state \<Rightarrow> unit res" where
  "offer_try env socketId entry s =
     (case createOffer env (pc entry) s of
        (Inl e, s2) \<Rightarrow> (Inl e, s2)
      | (Inr offer, s2) \<Rightarrow>
          (case setLocalDescription env (pc entry) offer s2 of
             (Inl e, s3) \<Rightarrow> (Inl e, s3)
           | (Inr u, s3) \<Rightarrow> (Inr (), emit (VOICE_OFFER offer socketId) s3)))"

definition offer_catch :: "env \<Rightarrow> string \<Rightarrow> unit res \<Rightarrow> state" where
  "offer_catch env socketId r =
     (case r of
        (Inl e, s1) \<Rightarrow> snd (cleanupPeer env socketId (log ''Failed to create offer for'' s1))
      | (Inr u, s1) \<Rightarrow> s1)"

fun offerUser_resume :: "env \<Rightarrow> pending \<Rightarrow> state \<Rightarrow> state" where
  "offerUser_resume env (Built i entry) s = offer_catch env i (offer_try env i entry s)"
| "offerUser_resume env (Acquiring i p a) s =
     offer_catch env i
       (case getUserMedia env s of
          (Inl e, s1) \<Rightarrow> (Inl e, log ''Microphone access denied'' s1)
        | (Inr st, s1) \<Rightarrow>
            (case createPeerConnection_finish i p a st (s1\<lparr>localStream := Some st\<rparr>) of
               (entry, s2) \<Rightarrow> offer_try env i entry s2))"

definition usersEffect :: "env \<Rightarrow> string option \<Rightarrow> string option list \<Rightarrow> state \<Rightarrow> state" where
  "usersEffect env socketId users s =
     (if \<not> joined s then s
      else (case fold (offerUser_start socketId) users (s, []) of
              (s1, waiting) \<Rightarrow> fold (offerUser_resume env) waiting s1))"

definition handleUserLeft :: "env \<Rightarrow> string option \<Rightarrow> state \<Rightarrow> unit res" where
  "handleUserLeft env user s =
     (case user of
        None \<Rightarrow> (Inr (), s)
      | Some i \<Rightarrow> if i = [] then (Inr (), s) else cleanupPeer env i s)"

subsection \<open>The controls\<close>

definition joinVoice :: "env \<Rightarrow> state \<Rightarrow> unit res" where
  "joinVoice env s =
     (if joined s then (Inr (), s)
      else (case getUserMedia env s of
              (Inl e, s1) \<Rightarrow> (Inr (), log ''Microphone access denied'' s1)
            | (Inr st, s1) \<Rightarrow>
                (Inr (), s1\<lparr>localStream := Some st, joined := True, localMuted := False\<rparr>)))"

definition stopTracks :: "nat list \<Rightarrow> MediaStreamTrack list \<Rightarrow> MediaStreamTrack list" where
  "stopTracks st ts = fold (\<lambda>t. upd_at t (\<lambda>x. x\<lparr>ended := True\<rparr>)) st ts"

definition leaveVoice :: "env \<Rightarrow> state \<Rightarrow> unit res" where
  "leaveVoice env s =
     (let s1 = s\<lparr>joined := False\<rparr>;
          s2 = (case localStream s1 of
                  None \<Rightarrow> s1
                | Some st \<Rightarrow> s1\<lparr>tracks := stopTracks st (tracks s1), localStream := None\<rparr>)
      in (Inr (), fold (\<lambda>i x. snd (cleanupPeer env i x)) (map fst (peers s2)) s2))"

definition getAudioTracks :: "nat list \<Rightarrow> MediaStreamTrack list \<Rightarrow> nat list" where
  "getAudioTracks st ts = filter (\<lambda>t. t < length ts \<and> kind (ts ! t) = Audio) st"

definition toggleLocalMute :: "state \<Rightarrow> state" where
  "toggleLocalMute s =
     (case localStream s of
        None \<Rightarrow> s
      | Some st \<Rightarrow>
          s\<lparr>tracks := fold (\<lambda>t. upd_at t (\<lambda>x. x\<lparr>enabled := \<not> enabled x\<rparr>))
                        (getAudioTracks st (tracks s)) (tracks s),
            localMuted := \<not> localMuted s\<rparr>)"

definition toggleRemoteMute :: "string \<Rightarrow> state \<Rightarrow> state" where
  "toggleRemoteMute socketId s =
     (case map_of (peers s) socketId of
        None \<Rightarrow> s
      | Some entry \<Rightarrow>
          (let newVal = (case map_of (remoteMutedMap s) socketId of None \<Rightarrow> True | Some b \<Rightarrow> \<not> b);
               s1 = s\<lparr>peers := AList.update socketId (entry\<lparr>muted := newVal\<rparr>) (peers s)\<rparr>;
               s2 = s1\<lparr>audios := upd_at (audioEl entry) (\<lambda>e. e\<lparr>el_muted := newVal\<rparr>) (audios s1)\<rparr>
           in s2\<lparr>remoteMutedMap := AList.update socketId newVal (remoteMutedMap s2)\<rparr>))"

text \<open>
  The two buttons of the rendered component: the first runs \<open>leaveVoice\<close> or \<open>joinVoice\<close>
  according to \<open>joined\<close>, the second is disabled unless \<open>joined\<close>.
\<close>

definition clickJoinButton :: "env \<Rightarrow> state \<Rightarrow> unit res" where
  "clickJoinButton env s = (if joined s then leaveVoice env s else joinVoice env s)"

definition clickMuteButton :: "state \<Rightarrow> state" where
  "clickMuteButton s = (if joined s then toggleLocalMute s else s)"

subsection \<open>Two environments\<close>

text \<open>One in which the browser grants a one-track stream and nothing fails, and one in
  which the microphone is refused.\<close>

definition env_ok :: env where
  "env_ok = \<lparr>micGrant = Some 1, closeThrows = False, removeChildThrows = False,
     setRemoteDescriptionFails = False, answerSdp = Some ''answer'', offerSdp = Some ''offer'',
     setLocalDescriptionFails = False, addIceCandidateFails = False\<rparr>"

definition env_denied :: env where
  "env_denied = env_ok\<lparr>micGrant := None\<rparr>"

subsection \<open>Well-formed states and the states the component reaches\<close>

text \<open>
  \<open>sync\<close>: the mute map and the peer table have the same keys. \<open>wf_peers\<close>: the table's
  keys are distinct, every entry refers to a connection and an audio element that exist,
  no two entries share one, and an entry's flag, its key's value in the mute map and its
  audio element's \<open>muted\<close> attribute agree. \<open>wf_stream\<close>: the held stream's tracks exist
  and are distinct, and a stream is held whenever \<open>joined\<close> is set.
\<close>

definition sync :: "state \<Rightarrow> bool" where
  "sync s = (set (map fst (remoteMutedMap s)) = set (map fst (peers s)))"

definition entry_ok :: "state \<Rightarrow> string \<times> PeerEntry \<Rightarrow> bool" where
  "entry_ok s = (\<lambda>(i, e).
     pc e < length (pcs s) \<and> audioEl e < length (audios s)
     \<and> map_of (remoteMutedMap s) i = Some (muted e)
     \<and> el_muted (audios s ! audioEl e) = muted e)"

definition wf_peers :: "state \<Rightarrow> bool" where
  "wf_peers s =
     (distinct (map fst (peers s))
      \<and> list_all (entry_ok s) (peers s)
      \<and> distinct (map (audioEl \<circ> snd) (peers s))
      \<and> distinct (map (pc \<circ> snd) (peers s))
      \<and> sync s)"

definition wf_stream :: "state \<Rightarrow> bool" where
  "wf_stream s =
     ((case localStream s of
         None \<Rightarrow> True
       | Some st \<Rightarrow> distinct st \<and> list_all (\<lambda>t. t < length (tracks s)) st)
      \<and> (if joined s then localStream s \<noteq> None else True))"

definition wf_state :: "state \<Rightarrow> bool" where
  "wf_state s = (wf_peers s \<and> wf_stream s)"

text \<open>No callback of the users effect waits for the microphone.\<close>

definition all_built :: "pending list \<Rightarrow> bool" where
  "all_built waiting =
     list_all (\<lambda>x. case x of Built i e \<Rightarrow> True | Acquiring i p a \<Rightarrow> False) waiting"

text \<open>
  The events of the component: the three signaling messages, a change of the user list
  (with the socket's own identifier), a user's disconnection, the two callbacks of a
  connection, and the four controls.
\<close>

datatype event =
  VoiceOffer string string
  | VoiceAnswer string string
  | VoiceIce string string
  | UsersChanged "string option" "string option list"
  | UserDisconnected "string option"
  | IceCandidate nat "string option"
  | Track nat string
  | JoinVoice
  | LeaveVoice
  | ToggleLocalMute
  | ToggleRemoteMute string

fun step :: "env \<Rightarrow> event \<Rightarrow> state \<Rightarrow> state" where
  "step env (VoiceOffer offer i) s = snd (handleOffer env offer i s)"
| "step env (VoiceAnswer answer i) s = snd (handleAnswer env answer i s)"
| "step env (VoiceIce candidate i) s = snd (handleIce env candidate i s)"
| "step env (UsersChanged socketId users) s = usersEffect env socketId users s"
| "step env (UserDisconnected user) s = snd (handleUserLeft env user s)"
| "step env (IceCandidate p cand) s = onicecandidate p cand s"
| "step env (Track p stream) s = ontrack p stream s"
| "step env JoinVoice s = snd (joinVoice env s)"
| "step env LeaveVoice s = snd (leaveVoice env s)"
| "step env ToggleLocalMute s = toggleLocalMute s"
| "step env (ToggleRemoteMute i) s = toggleRemoteMute i s"

inductive reachable :: "state \<Rightarrow> bool" where
  reachable_initial: "reachable initial"
| reachable_step: "reachable s \<Longrightarrow> reachable (step env ev s)"

section \<open>Properties\<close>

subsection \<open>Auxiliary facts\<close>

lemma peers_pc_close [simp]: "peers (snd (pc_close env p s)) = peers s"
  by (simp add: pc_close_def)
lemma rmm_pc_close [simp]: "remoteMutedMap (snd (pc_close env p s)) = remoteMutedMap s"
  by (simp add: pc_close_def)
lemma peers_detach_audio [simp]: "peers (snd (detach_audio env a s)) = peers s"
  by (simp add: detach_audio_def Let_def split: option.splits)
lemma rmm_detach_audio [simp]: "remoteMutedMap (snd (detach_audio env a s)) = remoteMutedMap s"
  by (simp add: detach_audio_def Let_def split: option.splits)

lemma cleanupPeer_ok: "fst (cleanupPeer env i s) = Inr ()"
  by (simp add: cleanupPeer_def Let_def split: option.splits)

lemma peers_cleanupPeer: "peers (snd (cleanupPeer env i s)) = AList.delete i (peers s)"
  by (auto simp: cleanupPeer_def Let_def AList.delete_id map_of_eq_None_iff split: option.splits)

lemma rmm_cleanupPeer:
  "remoteMutedMap (snd (cleanupPeer env i s)) =
     (if map_of (peers s) i = None then remoteMutedMap s
      else AList.delete i (remoteMutedMap s))"
  by (simp add: cleanupPeer_def Let_def split: option.splits)

lemma cleanupPeer_absent: "map_of (peers s) i = None \<Longrightarrow> cleanupPeer env i s = (Inr (), s)"
  by (simp add: cleanupPeer_def)

subsection \<open>Teardown\<close>

text \<open>
  Claim C6. Teardown never raises: for every peer identifier and every behaviour of the
  browser, \<open>cleanupPeer\<close> returns normally and leaves the table without an entry for
  that identifier; a second call in a row, and a call for an identifier that has no
  entry, return the state unchanged.
\<close>

theorem cleanupPeer_never_raises:
  "fst (cleanupPeer env socketId s) = Inr ()
   \<and> map_of (peers (snd (cleanupPeer env socketId s))) socketId = None
   \<and> socketId \<notin> fst ` set (peers (snd (cleanupPeer env socketId s)))
   \<and> cleanupPeer env' socketId (snd (cleanupPeer env socketId s))
       = (Inr (), snd (cleanupPeer env socketId s))
   \<and> (map_of (peers s) socketId = None \<longrightarrow> cleanupPeer env socketId s = (Inr (), s))"
proof -
  have a: "map_of (peers (snd (cleanupPeer env socketId s))) socketId = None"
    by (simp add: peers_cleanupPeer delete_conv)
  then have b: "socketId \<notin> fst ` set (peers (snd (cleanupPeer env socketId s)))"
    by (simp add: map_of_eq_None_iff)
  from a have c: "cleanupPeer env' socketId (snd (cleanupPeer env socketId s))
       = (Inr (), snd (cleanupPeer env socketId s))"
    by (rule cleanupPeer_absent)
  show ?thesis using a b c by (simp add: cleanupPeer_ok cleanupPeer_absent)
qed

text \<open>On the initial state, where peer B has no entry, teardown of B changes nothing.\<close>

theorem cleanupPeer_never_raises_witness:
  "map_of (peers initial) ''B'' = None
   \<and> cleanupPeer env_ok ''B'' initial = (Inr (), initial)
   \<and> fst (cleanupPeer env_ok ''B'' initial) = Inr ()
   \<and> ''B'' \<notin> fst ` set (peers (snd (cleanupPeer env_ok ''B'' initial)))"
  using cleanupPeer_never_raises [of env_ok "''B''" initial env_ok]
  by (simp add: initial_def)

subsection \<open>Stores and logs\<close>

lemma log_fields [simp]:
  "localStream (log m s) = localStream s" "peers (log m s) = peers s"
  "joined (log m s) = joined s" "localMuted (log m s) = localMuted s"
  "remoteMutedMap (log m s) = remoteMutedMap s" "audioContainer (log m s) = audioContainer s"
  "tracks (log m s) = tracks s" "pcs (log m s) = pcs s" "audios (log m s) = audios s"
  "emitted (log m s) = emitted s" "console (log m s) = console s @ [m]"
  by (simp_all add: log_def)

lemma emit_fields [simp]:
  "localStream (emit m s) = localStream s" "peers (emit m s) = peers s"
  "joined (emit m s) = joined s" "localMuted (emit m s) = localMuted s"
  "remoteMutedMap (emit m s) = remoteMutedMap s" "audioContainer (emit m s) = audioContainer s"
  "tracks (emit m s) = tracks s" "pcs (emit m s) = pcs s" "audios (emit m s) = audios s"
  "emitted (emit m s) = emitted s @ [m]" "console (emit m s) = console s"
  by (simp_all add: emit_def)

lemma length_upd_at [simp]: "length (upd_at i f xs) = length xs"
  by (simp add: upd_at_def)

lemma nth_upd_at: "j < length xs \<Longrightarrow> upd_at i f xs ! j = (if j = i then f (xs ! j) else xs ! j)"
  by (simp add: upd_at_def)

subsection \<open>Answers\<close>

text \<open>
  Claim C7. Stale answers are silently dropped: an answer from a peer that has no session
  returns normally and leaves the whole state unchanged (no session is created). When the
  peer has a session the answer becomes the remote description of its connection; when
  the browser rejects it, the handler logs the failure, returns normally and leaves the
  table as it was.
\<close>

theorem handleAnswer_stale_dropped:
  "(map_of (peers s) senderSocketId = None \<longrightarrow>
      handleAnswer env answer senderSocketId s = (Inr (), s))
   \<and> fst (handleAnswer env answer senderSocketId s) = Inr ()
   \<and> peers (snd (handleAnswer env answer senderSocketId s)) = peers s
   \<and> (\<forall>entry. map_of (peers s) senderSocketId = Some entry
          \<and> \<not> setRemoteDescriptionFails env \<longrightarrow>
         handleAnswer env answer senderSocketId s
           = (Inr (), s\<lparr>pcs := upd_at (pc entry)
                (\<lambda>c. c\<lparr>remoteDescription := Some answer\<rparr>) (pcs s)\<rparr>)
         \<and> (pc entry < length (pcs s) \<longrightarrow>
              remoteDescription
                (pcs (snd (handleAnswer env answer senderSocketId s)) ! pc entry)
                = Some answer))
   \<and> (\<forall>entry. map_of (peers s) senderSocketId = Some entry
          \<and> setRemoteDescriptionFails env \<longrightarrow>
         handleAnswer env answer senderSocketId s
           = (Inr (), log ''Failed to set remote answer'' s))"
  by (simp add: handleAnswer_def setRemoteDescription_def nth_upd_at split: option.splits)

subsection \<open>Capture denial while building a session\<close>

text \<open>
  Claim C8. No partial registration on capture denial: when no stream is held and the
  browser refuses the microphone, \<open>createPeerConnection\<close> throws the refusal to its
  caller, and the table and the mute map after the call are those before it.
\<close>

theorem createPeerConnection_capture_denied:
  assumes "localStream s = None" and "micGrant env = None"
  shows "fst (createPeerConnection env peerId s) = Inl CaptureDenied
   \<and> peers (snd (createPeerConnection env peerId s)) = peers s
   \<and> remoteMutedMap (snd (createPeerConnection env peerId s)) = remoteMutedMap s
   \<and> localStream (snd (createPeerConnection env peerId s)) = None"
  using assms
  by (simp add: createPeerConnection_def getUserMedia_def Let_def split: option.splits)

lemma createPeerConnection_fails_only_denied:
  "fst (createPeerConnection env peerId s) = Inl e \<Longrightarrow>
     e = CaptureDenied \<and> localStream s = None \<and> micGrant env = None"
  by (auto simp: createPeerConnection_def getUserMedia_def Let_def split: option.splits)

text \<open>On the initial state with the microphone refused.\<close>

theorem createPeerConnection_capture_denied_witness:
  "localStream initial = None \<and> micGrant env_denied = None
   \<and> fst (createPeerConnection env_denied ''B'' initial) = Inl CaptureDenied
   \<and> peers (snd (createPeerConnection env_denied ''B'' initial)) = []"
  using createPeerConnection_capture_denied [of initial env_denied "''B''"]
  by (simp add: initial_def env_denied_def env_ok_def)

subsection \<open>A first offer, evaluated\<close>

lemmas run_defs =
  handleOffer_def handleOffer_try_def createPeerConnection_def getUserMedia_def
  setRemoteDescription_def createAnswer_def setLocalDescription_def emit_def log_def
  upd_at_def new_pc_def new_audio_def new_track_def initial_def env_ok_def env_denied_def
  Let_def

lemma after_offer:
  "snd (handleOffer env_ok ''o1'' ''B'' initial) =
     \<lparr>localStream = Some [0], peers = [(''B'', \<lparr>pc = 0, audioEl = 0, muted = False\<rparr>)],
      joined = False, localMuted = False, remoteMutedMap = [(''B'', False)],
      audioContainer = Some [0],
      tracks = [\<lparr>kind = Audio, enabled = True, ended = False\<rparr>],
      pcs = [\<lparr>target = ''B'', sink = 0, pc_closed = False, senders = [0],
               remoteDescription = Some ''o1'', localDescription = Some ''answer'',
               candidates = []\<rparr>],
      audios = [\<lparr>el_muted = False, srcObject = None\<rparr>],
      emitted = [VOICE_ANSWER ''answer'' ''B''], console = []\<rparr>"
  by (simp add: run_defs)

text \<open>
  An answer from B on the initial state is dropped; after an offer from B has built B's
  session, an answer from B becomes the remote description of connection 0.
\<close>

theorem handleAnswer_stale_dropped_witness:
  "map_of (peers initial) ''B'' = None
   \<and> handleAnswer env_ok ''a1'' ''B'' initial = (Inr (), initial)
   \<and> map_of (peers (snd (handleOffer env_ok ''o1'' ''B'' initial))) ''B''
        = Some \<lparr>pc = 0, audioEl = 0, muted = False\<rparr>
   \<and> remoteDescription
        (pcs (snd (handleAnswer env_ok ''a1'' ''B'' (snd (handleOffer env_ok ''o1'' ''B'' initial)))) ! 0)
        = Some ''a1''"
proof -
  let ?s = "snd (handleOffer env_ok ''o1'' ''B'' initial)"
  have a: "map_of (peers initial) ''B'' = None"
    by (simp add: initial_def)
  have e: "map_of (peers ?s) ''B'' = Some \<lparr>pc = 0, audioEl = 0, muted = False\<rparr>"
    by (simp add: after_offer)
  have f: "\<not> setRemoteDescriptionFails env_ok"
    by (simp add: env_ok_def)
  have l: "pc \<lparr>pc = 0, audioEl = 0, muted = False\<rparr> < length (pcs ?s)"
    by (simp add: after_offer)
  from handleAnswer_stale_dropped [of initial "''B''" env_ok "''a1''"] a
  have b: "handleAnswer env_ok ''a1'' ''B'' initial = (Inr (), initial)"
    by blast
  have "pc \<lparr>pc = 0, audioEl = 0, muted = False\<rparr> < length (pcs ?s) \<longrightarrow>
      remoteDescription (pcs (snd (handleAnswer env_ok ''a1'' ''B'' ?s))
        ! pc \<lparr>pc = 0, audioEl = 0, muted = False\<rparr>) = Some ''a1''"
    using handleAnswer_stale_dropped [of ?s "''B''" env_ok "''a1''"] e f by blast
  with l have "remoteDescription (pcs (snd (handleAnswer env_ok ''a1'' ''B'' ?s))
        ! pc \<lparr>pc = 0, audioEl = 0, muted = False\<rparr>) = Some ''a1''"
    by blast
  then have c: "remoteDescription (pcs (snd (handleAnswer env_ok ''a1'' ''B'' ?s)) ! 0) = Some ''a1''"
    by simp
  from a b e c show ?thesis by blast
qed


subsection \<open>Joining\<close>

text \<open>
  Claim C3 says that on acquisition failure \<open>join\<close> surfaces the denial to its caller.
  With the microphone refused on the initial state, \<open>joinVoice\<close> does not throw it:
  the rejection is caught and logged.
\<close>

theorem joinVoice_denied_not_raised: "fst (joinVoice env_denied initial) \<noteq> Inl CaptureDenied"
  by (simp add: joinVoice_def getUserMedia_def env_denied_def env_ok_def initial_def)

text \<open>
  Claim C3, amended. \<open>joinVoice\<close> is a no-op when already joined. Otherwise it asks for
  the microphone; on success it stores the new stream and sets \<open>joined\<close> to true and
  \<open>localMuted\<close> to false; on refusal it logs the error and returns normally, and
  nothing but the console has changed: \<open>joined\<close>, \<open>localMuted\<close>, the stream and the table
  are as before.
\<close>

theorem joinVoice_spec:
  "(joined s \<longrightarrow> joinVoice env s = (Inr (), s))
   \<and> (\<forall>n. \<not> joined s \<and> micGrant env = Some n \<longrightarrow>
         joinVoice env s =
           (Inr (), s\<lparr>tracks := tracks s @ replicate n new_track,
                       localStream := Some [length (tracks s) ..< length (tracks s) + n],
                       joined := True, localMuted := False\<rparr>))
   \<and> (\<not> joined s \<and> micGrant env = None \<longrightarrow>
         joinVoice env s = (Inr (), s\<lparr>console := console s @ [''Microphone access denied'']\<rparr>))"
  by (simp add: joinVoice_def getUserMedia_def log_def)

text \<open>Joining from the initial state, refused and granted, and joining again once joined.\<close>

theorem joinVoice_spec_witness:
  "\<not> joined initial \<and> micGrant env_denied = None \<and> micGrant env_ok = Some 1
   \<and> joinVoice env_denied initial
       = (Inr (), initial\<lparr>console := console initial @ [''Microphone access denied'']\<rparr>)
   \<and> joinVoice env_ok initial
       = (Inr (), initial\<lparr>tracks := tracks initial @ replicate 1 new_track,
                    localStream := Some [length (tracks initial) ..< length (tracks initial) + 1],
                    joined := True, localMuted := False\<rparr>)
   \<and> joined (snd (joinVoice env_ok initial))
   \<and> joinVoice env_denied (snd (joinVoice env_ok initial))
       = (Inr (), snd (joinVoice env_ok initial))"
proof -
  have a: "\<not> joined initial" by (simp add: initial_def)
  have b: "micGrant env_denied = None" by (simp add: env_denied_def)
  have c: "micGrant env_ok = Some 1" by (simp add: env_ok_def)
  from joinVoice_spec [of initial env_denied] a b
  have d: "joinVoice env_denied initial
       = (Inr (), initial\<lparr>console := console initial @ [''Microphone access denied'']\<rparr>)"
    by blast
  from joinVoice_spec [of initial env_ok] a c
  have e: "joinVoice env_ok initial
       = (Inr (), initial\<lparr>tracks := tracks initial @ replicate 1 new_track,
                    localStream := Some [length (tracks initial) ..< length (tracks initial) + 1],
                    joined := True, localMuted := False\<rparr>)"
    by blast
  then have f: "joined (snd (joinVoice env_ok initial))" by simp
  from joinVoice_spec [of "snd (joinVoice env_ok initial)" env_denied] f
  have g: "joinVoice env_denied (snd (joinVoice env_ok initial))
       = (Inr (), snd (joinVoice env_ok initial))"
    by blast
  from a b c d e f g show ?thesis by blast
qed


subsection \<open>Inbound offers and the joined flag\<close>







subsection \<open>Leaving\<close>

lemma cleanupPeer_frame [simp]:
  "localStream (snd (cleanupPeer env i s)) = localStream s"
  "joined (snd (cleanupPeer env i s)) = joined s"
  "localMuted (snd (cleanupPeer env i s)) = localMuted s"
  "tracks (snd (cleanupPeer env i s)) = tracks s"
  "emitted (snd (cleanupPeer env i s)) = emitted s"
  "console (snd (cleanupPeer env i s)) = console s"
  by (simp_all add: cleanupPeer_def pc_close_def detach_audio_def Let_def split: option.splits)

lemma fold_cleanupPeer_peers:
  "peers (fold (\<lambda>i x. snd (cleanupPeer env i x)) ks s) = filter (\<lambda>p. fst p \<notin> set ks) (peers s)"
proof (induction ks arbitrary: s)
  case Nil
  show ?case by simp
next
  case (Cons k ks)
  have "filter (\<lambda>p. fst p \<notin> set ks) (AList.delete k (peers s))
      = filter (\<lambda>p. fst p \<notin> set (k # ks)) (peers s)"
    by (induction "peers s" arbitrary: s) (auto simp: AList.delete_eq intro: filter_cong)
  with Cons show ?case by (simp add: peers_cleanupPeer)
qed

lemma fold_cleanupPeer_frame [simp]:
  "localStream (fold (\<lambda>i x. snd (cleanupPeer env i x)) ks s) = localStream s"
  "joined (fold (\<lambda>i x. snd (cleanupPeer env i x)) ks s) = joined s"
  "localMuted (fold (\<lambda>i x. snd (cleanupPeer env i x)) ks s) = localMuted s"
  "tracks (fold (\<lambda>i x. snd (cleanupPeer env i x)) ks s) = tracks s"
  "emitted (fold (\<lambda>i x. snd (cleanupPeer env i x)) ks s) = emitted s"
  by (induction ks arbitrary: s) simp_all

lemma length_stopTracks [simp]: "length (stopTracks st ts) = length ts"
  unfolding stopTracks_def by (induction st arbitrary: ts) simp_all

lemma stopTracks_keeps_ended:
  "t < length ts \<Longrightarrow> ended (ts ! t) \<Longrightarrow> ended (stopTracks st ts ! t)"
  unfolding stopTracks_def by (induction st arbitrary: ts) (simp_all add: nth_upd_at)

lemma stopTracks_ended:
  "t \<in> set st \<Longrightarrow> t < length ts \<Longrightarrow> ended (stopTracks st ts ! t)"
proof (induction st arbitrary: ts)
  case Nil
  then show ?case by simp
next
  case (Cons a st)
  let ?ts = "upd_at a (\<lambda>x. x\<lparr>ended := True\<rparr>) ts"
  have step: "stopTracks (a # st) ts = stopTracks st ?ts"
    by (simp add: stopTracks_def)
  show ?case
  proof (cases "t = a")
    case True
    with Cons.prems have "ended (?ts ! t)" by (simp add: nth_upd_at)
    with Cons.prems show ?thesis by (simp add: step stopTracks_keeps_ended)
  next
    case False
    with Cons.prems have "t \<in> set st" by simp
    with Cons.IH [of ?ts] Cons.prems show ?thesis by (simp add: step)
  qed
qed

lemma leaveVoice_peers: "peers (snd (leaveVoice env s)) = []"
proof -
  have "filter (\<lambda>p. fst p \<notin> fst ` set xs) xs = []" for xs :: "(string \<times> PeerEntry) list"
    by (simp add: filter_empty_conv)
  then show ?thesis
    by (simp add: leaveVoice_def Let_def fold_cleanupPeer_peers split: option.splits)
qed

lemma leaveVoice_frame:
  "fst (leaveVoice env s) = Inr ()"
  "localStream (snd (leaveVoice env s)) = None"
  "\<not> joined (snd (leaveVoice env s))"
  "tracks (snd (leaveVoice env s)) =
     (case localStream s of None \<Rightarrow> tracks s | Some st \<Rightarrow> stopTracks st (tracks s))"
  "emitted (snd (leaveVoice env s)) = emitted s"
  "localMuted (snd (leaveVoice env s)) = localMuted s"
  by (simp_all add: leaveVoice_def Let_def split: option.splits)

lemma leaveVoice_idle:
  "\<not> joined s \<Longrightarrow> localStream s = None \<Longrightarrow> peers s = [] \<Longrightarrow> leaveVoice env s = (Inr (), s)"
  by (cases s) (simp add: leaveVoice_def)

text \<open>
  Claim C2. From any state (so after any sequence of join and leave calls),
  \<open>leaveVoice\<close> returns normally with an empty table, no stream reference and
  \<open>joined\<close> false, and every track of the stream that was held is stopped. A second
  \<open>leaveVoice\<close> in a row returns normally and changes nothing.
\<close>

theorem leaveVoice_releases_everything:
  "fst (leaveVoice env s) = Inr ()
   \<and> peers (snd (leaveVoice env s)) = []
   \<and> localStream (snd (leaveVoice env s)) = None
   \<and> \<not> joined (snd (leaveVoice env s))
   \<and> (\<forall>st. localStream s = Some st \<longrightarrow>
         (\<forall>t \<in> set st. t < length (tracks s) \<longrightarrow>
            t < length (tracks (snd (leaveVoice env s)))
            \<and> ended (tracks (snd (leaveVoice env s)) ! t)))
   \<and> leaveVoice env' (snd (leaveVoice env s)) = (Inr (), snd (leaveVoice env s))"
  by (simp add: leaveVoice_peers leaveVoice_frame leaveVoice_idle stopTracks_ended)


text \<open>Leaving after an offer from B has acquired the stream and built B's session.\<close>

theorem leaveVoice_releases_everything_witness:
  "localStream (snd (handleOffer env_ok ''o1'' ''B'' initial)) = Some [0]
   \<and> 0 < length (tracks (snd (handleOffer env_ok ''o1'' ''B'' initial)))
   \<and> peers (snd (handleOffer env_ok ''o1'' ''B'' initial)) \<noteq> []
   \<and> peers (snd (leaveVoice env_ok (snd (handleOffer env_ok ''o1'' ''B'' initial)))) = []
   \<and> localStream (snd (leaveVoice env_ok (snd (handleOffer env_ok ''o1'' ''B'' initial)))) = None
   \<and> ended (tracks (snd (leaveVoice env_ok (snd (handleOffer env_ok ''o1'' ''B'' initial)))) ! 0)"
proof -
  let ?s = "snd (handleOffer env_ok ''o1'' ''B'' initial)"
  have a: "localStream ?s = Some [0]" and b: "0 < length (tracks ?s)" and c: "peers ?s \<noteq> []"
    by (simp_all add: after_offer)
  have "\<forall>t \<in> set [0]. t < length (tracks ?s) \<longrightarrow>
          ended (tracks (snd (leaveVoice env_ok ?s)) ! t)"
    using leaveVoice_releases_everything [of env_ok ?s env_ok] a by blast
  with b have d: "ended (tracks (snd (leaveVoice env_ok ?s)) ! 0)"
    by simp
  have e: "peers (snd (leaveVoice env_ok ?s)) = []
      \<and> localStream (snd (leaveVoice env_ok ?s)) = None"
    using leaveVoice_releases_everything [of env_ok ?s env_ok] by blast
  from a b c d e show ?thesis by blast
qed

subsection \<open>The users effect, evaluated\<close>

text \<open>
  A user listed twice while a stream is held: the first callback registers the session
  before the second makes its test, so one connection is built. When \<open>createOffer\<close> is
  then rejected, the failure is logged once and the session is torn down.
\<close>

lemma usersEffect_repeated_user:
  "usersEffect (env_ok\<lparr>offerSdp := None\<rparr>) (Some ''me'') [Some ''B'', Some ''B'']
     (snd (joinVoice env_ok initial)) =
     \<lparr>localStream = Some [0], peers = [], joined = True, localMuted = False,
      remoteMutedMap = [], audioContainer = Some [],
      tracks = [\<lparr>kind = Audio, enabled = True, ended = False\<rparr>],
      pcs = [\<lparr>target = ''B'', sink = 0, pc_closed = True, senders = [0],
               remoteDescription = None, localDescription = None, candidates = []\<rparr>],
      audios = [\<lparr>el_muted = False, srcObject = None\<rparr>], emitted = [],
      console = [''Failed to create offer for'']\<rparr>"
  by (simp add: usersEffect_def offerUser_start_def createPeerConnection_begin_def
      createPeerConnection_finish_def offer_try_def offer_catch_def createOffer_def
      cleanupPeer_def pc_close_def detach_audio_def joinVoice_def getUserMedia_def
      log_def upd_at_def new_pc_def new_audio_def new_track_def initial_def env_ok_def
      Let_def)

subsection \<open>Well-formedness is an invariant\<close>

text \<open>
  Every handler and control keeps a well-formed state well-formed, so every state the
  component reaches from its initial state is well-formed.
\<close>

lemma set_update_subset: "set (AList.update k v al) \<subseteq> insert (k, v) (set al)"
  by (induction al) auto

lemma distinct_map_update_fresh:
  "distinct (map g al) \<Longrightarrow> g (k, v) \<notin> g ` set al \<Longrightarrow>
     distinct (map g (AList.update k v al))"
proof (induction al)
  case Nil
  then show ?case by simp
next
  case (Cons p al)
  have sub: "g ` set (AList.update k v al) \<subseteq> insert (g (k, v)) (g ` set al)"
    using set_update_subset [of k v al] by auto
  show ?case
  proof (cases "fst p = k")
    case True
    with Cons.prems show ?thesis by simp
  next
    case False
    from Cons.prems have "g p \<notin> g ` set al" and "g p \<noteq> g (k, v)"
      by auto
    with sub have "g p \<notin> g ` set (AList.update k v al)"
      by blast
    with False Cons show ?thesis by simp
  qed
qed

lemma map_snd_update_same:
  "map_of al k = Some e \<Longrightarrow> f v = f e \<Longrightarrow>
     map (f \<circ> snd) (AList.update k v al) = map (f \<circ> snd) al"
  by (induction al) (auto split: if_splits)

lemma distinct_map_delete:
  "distinct (map f al) \<Longrightarrow> distinct (map f (AList.delete k al))"
  by (simp add: AList.delete_eq distinct_map_filter)

lemma keys_update: "set (map fst (AList.update k v al)) = insert k (set (map fst al))"
  using dom_update [of k v al] by simp

lemma keys_delete: "set (map fst (AList.delete k al)) = set (map fst al) - {k}"
  by (auto simp: delete_keys)

lemma sync_initial: "sync initial"
  by (simp add: sync_def initial_def)

lemma wf_initial: "wf_state initial"
  by (simp add: wf_state_def wf_peers_def wf_stream_def sync_def initial_def)


lemma set_update_distinct:
  "distinct (map fst al) \<Longrightarrow>
     set (AList.update k v al) = insert (k, v) {p \<in> set al. fst p \<noteq> k}"
  by (induction al) (auto simp: rev_image_eqI)

lemma wf_peers_frame:
  assumes "wf_peers s" and "peers s' = peers s" and "remoteMutedMap s' = remoteMutedMap s"
    and "length (pcs s) \<le> length (pcs s')" and "length (audios s) \<le> length (audios s')"
    and "\<forall>a < length (audios s). el_muted (audios s' ! a) = el_muted (audios s ! a)"
  shows "wf_peers s'"
  using assms
  by (auto simp: wf_peers_def entry_ok_def sync_def list_all_iff)

lemma wf_stream_frame:
  assumes "wf_stream s" and "localStream s' = localStream s" and "joined s' = joined s"
    and "length (tracks s) \<le> length (tracks s')"
  shows "wf_stream s'"
  using assms
  by (auto simp: wf_stream_def list_all_iff split: option.splits)

lemma wf_frame:
  assumes "wf_state s" and "peers s' = peers s" and "remoteMutedMap s' = remoteMutedMap s"
    and "length (pcs s) \<le> length (pcs s')" and "length (audios s) \<le> length (audios s')"
    and "\<forall>a < length (audios s). el_muted (audios s' ! a) = el_muted (audios s ! a)"
    and "localStream s' = localStream s" and "joined s' = joined s"
    and "length (tracks s) \<le> length (tracks s')"
  shows "wf_state s'"
  using assms wf_peers_frame [of s s'] wf_stream_frame [of s s']
  by (simp add: wf_state_def)

lemma wf_log [simp]: "wf_state (log m s) = wf_state s"
  by (simp add: wf_state_def wf_peers_def wf_stream_def entry_ok_def sync_def log_def
      cong: option.case_cong)

lemma wf_emit [simp]: "wf_state (emit m s) = wf_state s"
  by (simp add: wf_state_def wf_peers_def wf_stream_def entry_ok_def sync_def emit_def
      cong: option.case_cong)

lemma wf_setRemoteDescription: "wf_state s \<Longrightarrow> wf_state (snd (setRemoteDescription env p d s))"
  by (rule wf_frame [of s]) (simp_all add: setRemoteDescription_def)

lemma wf_setLocalDescription: "wf_state s \<Longrightarrow> wf_state (snd (setLocalDescription env p d s))"
  by (rule wf_frame [of s]) (simp_all add: setLocalDescription_def)

lemma wf_addIceCandidate: "wf_state s \<Longrightarrow> wf_state (snd (addIceCandidate env p d s))"
  by (rule wf_frame [of s]) (simp_all add: addIceCandidate_def)

lemma wf_createAnswer: "wf_state s \<Longrightarrow> wf_state (snd (createAnswer env p s))"
  by (simp add: createAnswer_def split: option.splits)

lemma wf_createOffer: "wf_state s \<Longrightarrow> wf_state (snd (createOffer env p s))"
  by (simp add: createOffer_def split: option.splits)

lemma wf_onicecandidate: "wf_state s \<Longrightarrow> wf_state (onicecandidate p c s)"
  by (simp add: onicecandidate_def split: option.splits)

lemma wf_ontrack: "wf_state s \<Longrightarrow> wf_state (ontrack p st s)"
  by (rule wf_frame [of s]) (simp_all add: ontrack_def nth_upd_at)


lemma createPeerConnection_stores:
  "audios (snd (createPeerConnection env i s)) = audios s @ [new_audio]"
  "length (pcs (snd (createPeerConnection env i s))) = Suc (length (pcs s))"
  "joined (snd (createPeerConnection env i s)) = joined s"
  "localMuted (snd (createPeerConnection env i s)) = localMuted s"
  by (simp_all add: createPeerConnection_def getUserMedia_def Let_def split: option.splits)

lemma createPeerConnection_table:
  "(\<exists>e. fst (createPeerConnection env i s) = Inl e
      \<and> peers (snd (createPeerConnection env i s)) = peers s
      \<and> remoteMutedMap (snd (createPeerConnection env i s)) = remoteMutedMap s)
   \<or> (fst (createPeerConnection env i s)
         = Inr \<lparr>pc = length (pcs s), audioEl = length (audios s), muted = False\<rparr>
      \<and> peers (snd (createPeerConnection env i s))
         = AList.update i \<lparr>pc = length (pcs s), audioEl = length (audios s), muted = False\<rparr>
             (peers s)
      \<and> remoteMutedMap (snd (createPeerConnection env i s))
         = AList.update i False (remoteMutedMap s))"
  by (simp add: createPeerConnection_def getUserMedia_def Let_def split: option.splits)

lemma wf_peers_register:
  assumes wf_state: "wf_peers s"
    and au: "audios s' = audios s @ [a]" and am: "\<not> el_muted a"
    and pl: "length (pcs s') = Suc (length (pcs s))"
    and pe: "peers s' = AList.update i
               \<lparr>pc = length (pcs s), audioEl = length (audios s), muted = False\<rparr> (peers s)"
    and rm: "remoteMutedMap s' = AList.update i False (remoteMutedMap s)"
  shows "wf_peers s'"
proof -
  let ?e = "\<lparr>pc = length (pcs s), audioEl = length (audios s), muted = False\<rparr>"
  from wf_state have dk: "distinct (map fst (peers s))"
    and ok: "\<forall>p \<in> set (peers s). entry_ok s p"
    and da: "distinct (map (audioEl \<circ> snd) (peers s))"
    and dp: "distinct (map (pc \<circ> snd) (peers s))"
    and sy: "sync s"
    by (simp_all add: wf_peers_def list_all_iff)
  have 1: "distinct (map fst (peers s'))"
    using dk by (simp add: pe distinct_update)
  have new: "entry_ok s' (i, ?e)"
    using am by (simp add: entry_ok_def au pl rm update_conv')
  have old: "entry_ok s' p" if "p \<in> set (peers s)" and "fst p \<noteq> i" for p
    using that ok [rule_format, of p]
    by (cases p) (auto simp: entry_ok_def au pl rm update_conv' nth_append)
  have 2: "list_all (entry_ok s') (peers s')"
    using new old by (auto simp: list_all_iff pe set_update_distinct [OF dk])
  have fresh_a: "(audioEl \<circ> snd) (i, ?e) \<notin> (audioEl \<circ> snd) ` set (peers s)"
    using ok by (auto simp: entry_ok_def)
  have fresh_p: "(pc \<circ> snd) (i, ?e) \<notin> (pc \<circ> snd) ` set (peers s)"
    using ok by (auto simp: entry_ok_def)
  have 3: "distinct (map (audioEl \<circ> snd) (peers s'))"
    unfolding pe using da fresh_a by (rule distinct_map_update_fresh)
  have 4: "distinct (map (pc \<circ> snd) (peers s'))"
    unfolding pe using dp fresh_p by (rule distinct_map_update_fresh)
  have 5: "sync s'"
    using sy keys_update [of i False "remoteMutedMap s"] keys_update [of i ?e "peers s"]
    by (simp add: sync_def pe rm)
  from 1 2 3 4 5 show ?thesis by (simp add: wf_peers_def)
qed

lemma wf_peers_createPeerConnection:
  assumes "wf_peers s"
  shows "wf_peers (snd (createPeerConnection env i s))"
proof -
  let ?s' = "snd (createPeerConnection env i s)"
  from createPeerConnection_table [of env i s] show ?thesis
  proof (elim disjE exE conjE)
    fix e
    assume "peers ?s' = peers s" and "remoteMutedMap ?s' = remoteMutedMap s"
    with assms show ?thesis
      by (intro wf_peers_frame [of s ?s'])
        (simp_all add: createPeerConnection_stores nth_append)
  next
    assume "peers ?s' = AList.update i
        \<lparr>pc = length (pcs s), audioEl = length (audios s), muted = False\<rparr> (peers s)"
      and "remoteMutedMap ?s' = AList.update i False (remoteMutedMap s)"
    with assms show ?thesis
      by (intro wf_peers_register [of s ?s' new_audio i])
        (simp_all add: createPeerConnection_stores new_audio_def)
  qed
qed

lemma wf_stream_createPeerConnection:
  assumes "wf_stream s"
  shows "wf_stream (snd (createPeerConnection env i s))"
  using assms
  by (auto simp: createPeerConnection_def getUserMedia_def Let_def wf_stream_def list_all_iff
      split: option.splits)

lemma wf_createPeerConnection: "wf_state s \<Longrightarrow> wf_state (snd (createPeerConnection env i s))"
  by (simp add: wf_state_def wf_peers_createPeerConnection wf_stream_createPeerConnection)


lemma cleanupPeer_stores:
  "length (pcs (snd (cleanupPeer env i s))) = length (pcs s)"
  "length (audios (snd (cleanupPeer env i s))) = length (audios s)"
  "a < length (audios s) \<Longrightarrow>
     el_muted (audios (snd (cleanupPeer env i s)) ! a) = el_muted (audios s ! a)"
  by (simp_all add: cleanupPeer_def pc_close_def detach_audio_def Let_def nth_upd_at
      split: option.splits)

lemma wf_peers_cleanupPeer:
  assumes wf_state: "wf_peers s"
  shows "wf_peers (snd (cleanupPeer env i s))"
proof (cases "map_of (peers s) i")
  case None
  with wf_state show ?thesis by (simp add: cleanupPeer_absent)
next
  case (Some e)
  let ?s' = "snd (cleanupPeer env i s)"
  have pe: "peers ?s' = AList.delete i (peers s)"
    by (rule peers_cleanupPeer)
  have rm: "remoteMutedMap ?s' = AList.delete i (remoteMutedMap s)"
    using Some by (simp add: rmm_cleanupPeer)
  from wf_state have dk: "distinct (map fst (peers s))"
    and ok: "\<forall>p \<in> set (peers s). entry_ok s p"
    and da: "distinct (map (audioEl \<circ> snd) (peers s))"
    and dp: "distinct (map (pc \<circ> snd) (peers s))"
    and sy: "sync s"
    by (simp_all add: wf_peers_def list_all_iff)
  have 1: "distinct (map fst (peers ?s'))"
    using dk by (simp add: pe distinct_delete)
  have "entry_ok ?s' p" if "p \<in> set (peers s)" and "fst p \<noteq> i" for p
    using that ok [rule_format, of p]
    by (cases p) (auto simp: entry_ok_def cleanupPeer_stores rm)
  then have 2: "list_all (entry_ok ?s') (peers ?s')"
    by (auto simp: list_all_iff pe AList.delete_eq)
  have 3: "distinct (map (audioEl \<circ> snd) (peers ?s'))"
    unfolding pe using da by (rule distinct_map_delete)
  have 4: "distinct (map (pc \<circ> snd) (peers ?s'))"
    unfolding pe using dp by (rule distinct_map_delete)
  have 5: "sync ?s'"
    using sy keys_delete [of i "remoteMutedMap s"] keys_delete [of i "peers s"]
    by (simp add: sync_def pe rm)
  from 1 2 3 4 5 show ?thesis by (simp add: wf_peers_def)
qed

lemma wf_stream_cleanupPeer: "wf_stream s \<Longrightarrow> wf_stream (snd (cleanupPeer env i s))"
  by (rule wf_stream_frame [of s]) simp_all

lemma wf_cleanupPeer: "wf_state s \<Longrightarrow> wf_state (snd (cleanupPeer env i s))"
  by (simp add: wf_state_def wf_peers_cleanupPeer wf_stream_cleanupPeer)

lemma wf_fold_cleanupPeer: "wf_state s \<Longrightarrow> wf_state (fold (\<lambda>i x. snd (cleanupPeer env i x)) ks s)"
  by (induction ks arbitrary: s) (simp_all add: wf_cleanupPeer)

lemma wf_steps:
  "createPeerConnection env i s = (r1, s') \<Longrightarrow> wf_state s \<Longrightarrow> wf_state s'"
  "setRemoteDescription env p d s = (r2, s') \<Longrightarrow> wf_state s \<Longrightarrow> wf_state s'"
  "setLocalDescription env p d s = (r2, s') \<Longrightarrow> wf_state s \<Longrightarrow> wf_state s'"
  "addIceCandidate env p d s = (r2, s') \<Longrightarrow> wf_state s \<Longrightarrow> wf_state s'"
  "createAnswer env p s = (r3, s') \<Longrightarrow> wf_state s \<Longrightarrow> wf_state s'"
  "createOffer env p s = (r3, s') \<Longrightarrow> wf_state s \<Longrightarrow> wf_state s'"
  "cleanupPeer env i s = (r2, s') \<Longrightarrow> wf_state s \<Longrightarrow> wf_state s'"
  using wf_createPeerConnection [of s env i] wf_setRemoteDescription [of s env p d]
    wf_setLocalDescription [of s env p d] wf_addIceCandidate [of s env p d]
    wf_createAnswer [of s env p] wf_createOffer [of s env p] wf_cleanupPeer [of s env i]
  by simp_all

lemma wf_seq:
  assumes "wf_state (snd (f s))"
    and "\<And>a s1. wf_state s1 \<Longrightarrow> wf_state (snd (g a s1))"
  shows "wf_state (snd (case f s of (Inl e, s1) \<Rightarrow> (Inl e, s1) | (Inr a, s1) \<Rightarrow> g a s1))"
proof (cases "f s")
  case (Pair r s1)
  with assms show ?thesis by (cases r) auto
qed

lemma wf_handleOffer_try: "wf_state s \<Longrightarrow> wf_state (snd (handleOffer_try env offer i s))"
  unfolding handleOffer_try_def
  by (intro wf_seq wf_createPeerConnection wf_setRemoteDescription wf_createAnswer
      wf_setLocalDescription) simp_all

lemma wf_handleOffer: "wf_state s \<Longrightarrow> wf_state (snd (handleOffer env offer i s))"
  using wf_handleOffer_try [of s env offer i]
  by (cases "handleOffer_try env offer i s"; cases "fst (handleOffer_try env offer i s)")
    (simp_all add: handleOffer_def)

lemma wf_handleAnswer: "wf_state s \<Longrightarrow> wf_state (snd (handleAnswer env answer i s))"
proof (cases "map_of (peers s) i")
  case None
  then show "wf_state s \<Longrightarrow> ?thesis" by (simp add: handleAnswer_def)
next
  case (Some entry)
  assume "wf_state s"
  then have "wf_state (snd (setRemoteDescription env (pc entry) answer s))"
    by (rule wf_setRemoteDescription)
  with Some show ?thesis
    by (cases "setRemoteDescription env (pc entry) answer s";
        cases "fst (setRemoteDescription env (pc entry) answer s)")
      (simp_all add: handleAnswer_def)
qed

lemma wf_handleIce: "wf_state s \<Longrightarrow> wf_state (snd (handleIce env candidate i s))"
proof (cases "map_of (peers s) i")
  case None
  then show "wf_state s \<Longrightarrow> ?thesis" by (simp add: handleIce_def)
next
  case (Some entry)
  assume "wf_state s"
  then have "wf_state (snd (addIceCandidate env (pc entry) candidate s))"
    by (rule wf_addIceCandidate)
  with Some show ?thesis
    by (cases "addIceCandidate env (pc entry) candidate s";
        cases "fst (addIceCandidate env (pc entry) candidate s)")
      (simp_all add: handleIce_def)
qed

lemma createPeerConnection_parts:
  "createPeerConnection env i s =
     (case createPeerConnection_begin i s of
        ((p, a), s3) \<Rightarrow>
          (case localStream s3 of
             Some st \<Rightarrow>
               (case createPeerConnection_finish i p a st s3 of (entry, s8) \<Rightarrow> (Inr entry, s8))
           | None \<Rightarrow>
               (case getUserMedia env s3 of
                  (Inl e, s4) \<Rightarrow> (Inl e, log ''Microphone access denied'' s4)
                | (Inr st, s4) \<Rightarrow>
                    (case createPeerConnection_finish i p a st (s4\<lparr>localStream := Some st\<rparr>) of
                       (entry, s8) \<Rightarrow> (Inr entry, s8)))))"
  by (simp add: createPeerConnection_def createPeerConnection_begin_def
      createPeerConnection_finish_def Let_def split: option.splits prod.splits sum.splits)

lemma createPeerConnection_localStream:
  "localStream s = Some st \<Longrightarrow> localStream (snd (createPeerConnection env i s)) = Some st"
  by (simp add: createPeerConnection_def Let_def split: option.splits)

lemma offerUser_start_held:
  assumes "localStream s = Some st"
  shows "offerUser_start socketId u (s, waiting) = (s, waiting)
     \<or> (\<exists>i entry. offerUser_start socketId u (s, waiting)
            = (snd (createPeerConnection env i s), waiting @ [Built i entry]))"
proof -
  have build: "\<exists>entry. (case createPeerConnection_begin i s of
        ((p, a), s1) \<Rightarrow>
          (case localStream s1 of
             Some st \<Rightarrow>
               (case createPeerConnection_finish i p a st s1 of
                  (entry, s2) \<Rightarrow> (s2, waiting @ [Built i entry]))
           | None \<Rightarrow> (s1, waiting @ [Acquiring i p a])))
      = (snd (createPeerConnection env i s), waiting @ [Built i entry])" for i
  proof -
    obtain p a s1 where b: "createPeerConnection_begin i s = ((p, a), s1)"
      by (cases "createPeerConnection_begin i s") auto
    then have l: "localStream s1 = Some st"
      using assms by (auto simp: createPeerConnection_begin_def Let_def split: option.splits)
    obtain entry s2 where f: "createPeerConnection_finish i p a st s1 = (entry, s2)"
      by fastforce
    from b l f have "createPeerConnection env i s = (Inr entry, s2)"
      by (simp add: createPeerConnection_parts [of env i s])
    with b l f show ?thesis by simp
  qed
  show ?thesis
  proof (cases "\<exists>i. u = Some i \<and> i \<noteq> [] \<and> Some i \<noteq> socketId \<and> map_of (peers s) i = None")
    case False
    then have "offerUser_start socketId u (s, waiting) = (s, waiting)"
      by (auto simp: offerUser_start_def split: option.splits)
    then show ?thesis by simp
  next
    case True
    then obtain i where i: "u = Some i" "i \<noteq> []" "Some i \<noteq> socketId" "map_of (peers s) i = None"
      by blast
    from build [of i] obtain entry where "(case createPeerConnection_begin i s of
        ((p, a), s1) \<Rightarrow>
          (case localStream s1 of
             Some st \<Rightarrow>
               (case createPeerConnection_finish i p a st s1 of
                  (entry, s2) \<Rightarrow> (s2, waiting @ [Built i entry]))
           | None \<Rightarrow> (s1, waiting @ [Acquiring i p a])))
      = (snd (createPeerConnection env i s), waiting @ [Built i entry])"
      by blast
    with i have "offerUser_start socketId u (s, waiting)
        = (snd (createPeerConnection env i s), waiting @ [Built i entry])"
      by (simp add: offerUser_start_def)
    then show ?thesis by blast
  qed
qed

lemma wf_offerUser_start:
  assumes "wf_state s" and "localStream s \<noteq> None" and "all_built waiting"
    and "offerUser_start socketId u (s, waiting) = (s', waiting')"
  shows "wf_state s' \<and> localStream s' \<noteq> None \<and> all_built waiting'"
proof -
  from assms(2) obtain st where st: "localStream s = Some st" by auto
  from offerUser_start_held [OF st, of socketId u waiting env_ok] show ?thesis
  proof (elim disjE exE)
    assume "offerUser_start socketId u (s, waiting) = (s, waiting)"
    with assms show ?thesis by simp
  next
    fix i entry
    assume "offerUser_start socketId u (s, waiting)
        = (snd (createPeerConnection env_ok i s), waiting @ [Built i entry])"
    with assms(4) have "s' = snd (createPeerConnection env_ok i s)"
      and "waiting' = waiting @ [Built i entry]"
      by simp_all
    with assms(1,3) st show ?thesis
      by (simp add: wf_createPeerConnection createPeerConnection_localStream all_built_def)
  qed
qed

lemma wf_fold_offerUser_start:
  assumes "wf_state s" and "localStream s \<noteq> None" and "all_built waiting"
    and "fold (offerUser_start socketId) users (s, waiting) = (s', waiting')"
  shows "wf_state s' \<and> all_built waiting'"
  using assms
proof (induction users arbitrary: s waiting)
  case Nil
  then show ?case by simp
next
  case (Cons u users)
  obtain s1 w1 where 1: "offerUser_start socketId u (s, waiting) = (s1, w1)"
    by fastforce
  with Cons.prems have "wf_state s1 \<and> localStream s1 \<noteq> None \<and> all_built w1"
    by (intro wf_offerUser_start [of s waiting socketId u s1 w1]) simp_all
  moreover from Cons.prems 1 have "fold (offerUser_start socketId) users (s1, w1) = (s', waiting')"
    by simp
  ultimately show ?case
    using Cons.IH [of s1 w1] by simp
qed

lemma wf_offer_try: "wf_state s \<Longrightarrow> wf_state (snd (offer_try env i entry s))"
  unfolding offer_try_def
  by (intro wf_seq wf_createOffer wf_setLocalDescription) simp_all

lemma wf_offer_catch: "wf_state (snd r) \<Longrightarrow> wf_state (offer_catch env i r)"
  by (cases r; cases "fst r") (simp_all add: offer_catch_def wf_cleanupPeer)

lemma wf_fold_offerUser_resume:
  "wf_state s \<Longrightarrow> all_built waiting \<Longrightarrow> wf_state (fold (offerUser_resume env) waiting s)"
proof (induction waiting arbitrary: s)
  case Nil
  then show ?case by simp
next
  case (Cons x waiting)
  from Cons.prems obtain i entry where x: "x = Built i entry" and rest: "all_built waiting"
    by (cases x) (simp_all add: all_built_def)
  from Cons.prems have "wf_state (offerUser_resume env x s)"
    by (simp add: x wf_offer_catch wf_offer_try)
  with rest show ?case
    using Cons.IH [of "offerUser_resume env x s"] by simp
qed

lemma wf_usersEffect: "wf_state s \<Longrightarrow> wf_state (usersEffect env socketId users s)"
proof (cases "joined s")
  case False
  then show "wf_state s \<Longrightarrow> ?thesis" by (simp add: usersEffect_def)
next
  case True
  assume w: "wf_state s"
  with True have held: "localStream s \<noteq> None"
    by (simp add: wf_state_def wf_stream_def)
  obtain s1 waiting where f: "fold (offerUser_start socketId) users (s, []) = (s1, waiting)"
    by fastforce
  with w held have "wf_state s1 \<and> all_built waiting"
    by (intro wf_fold_offerUser_start [of s "[]" socketId users s1 waiting])
      (simp_all add: all_built_def)
  then have "wf_state (fold (offerUser_resume env) waiting s1)"
    by (simp add: wf_fold_offerUser_resume)
  with True f show ?thesis by (simp add: usersEffect_def)
qed

lemma wf_handleUserLeft: "wf_state s \<Longrightarrow> wf_state (snd (handleUserLeft env user s))"
  by (simp add: handleUserLeft_def wf_cleanupPeer split: option.splits)


lemma wf_joinVoice: "wf_state s \<Longrightarrow> wf_state (snd (joinVoice env s))"
proof (cases "joined s \<or> micGrant env = None")
  case True
  then show "wf_state s \<Longrightarrow> ?thesis"
    by (auto simp: joinVoice_def getUserMedia_def)
next
  case False
  then obtain n where n: "micGrant env = Some n" and j: "\<not> joined s"
    by auto
  let ?s' = "s\<lparr>tracks := tracks s @ replicate n new_track,
               localStream := Some [length (tracks s) ..< length (tracks s) + n],
               joined := True, localMuted := False\<rparr>"
  assume w: "wf_state s"
  then have "wf_peers ?s'"
    by (intro wf_peers_frame [of s ?s']) (simp_all add: wf_state_def)
  moreover have "wf_stream ?s'"
    by (simp add: wf_stream_def list_all_iff)
  moreover from n j have "snd (joinVoice env s) = ?s'"
    by (simp add: joinVoice_def getUserMedia_def)
  ultimately show ?thesis
    by (simp add: wf_state_def)
qed

lemma wf_leaveVoice: "wf_state s \<Longrightarrow> wf_state (snd (leaveVoice env s))"
proof -
  let ?s2 = "case localStream s of
               None \<Rightarrow> s\<lparr>joined := False\<rparr>
             | Some st \<Rightarrow> s\<lparr>joined := False, tracks := stopTracks st (tracks s),
                             localStream := None\<rparr>"
  assume w: "wf_state s"
  then have "wf_peers ?s2"
    by (intro wf_peers_frame [of s ?s2]) (simp_all add: wf_state_def split: option.splits)
  moreover have "wf_stream ?s2"
    by (simp add: wf_stream_def split: option.splits)
  ultimately have "wf_state ?s2"
    by (simp add: wf_state_def)
  then have "wf_state (fold (\<lambda>i x. snd (cleanupPeer env i x)) (map fst (peers ?s2)) ?s2)"
    by (rule wf_fold_cleanupPeer)
  moreover have "snd (leaveVoice env s)
      = fold (\<lambda>i x. snd (cleanupPeer env i x)) (map fst (peers ?s2)) ?s2"
    by (simp add: leaveVoice_def Let_def split: option.splits)
  ultimately show ?thesis by simp
qed

lemma wf_toggleLocalMute: "wf_state s \<Longrightarrow> wf_state (toggleLocalMute s)"
proof -
  have len: "length (fold (\<lambda>t. upd_at t f) xs ts) = length ts"
    for f :: "MediaStreamTrack \<Rightarrow> MediaStreamTrack" and xs ts
    by (induction xs arbitrary: ts) simp_all
  assume "wf_state s"
  then show ?thesis
    by (rule wf_frame [of s]) (simp_all add: toggleLocalMute_def len split: option.splits)
qed

lemma wf_toggleRemoteMute:
  assumes w: "wf_state s"
  shows "wf_state (toggleRemoteMute i s)"
proof (cases "map_of (peers s) i")
  case None
  with w show ?thesis by (simp add: toggleRemoteMute_def)
next
  case (Some e)
  define b where "b = (case map_of (remoteMutedMap s) i of None \<Rightarrow> True | Some x \<Rightarrow> \<not> x)"
  let ?e = "e\<lparr>muted := b\<rparr>"
  let ?s' = "toggleRemoteMute i s"
  have pe: "peers ?s' = AList.update i ?e (peers s)"
    and rm: "remoteMutedMap ?s' = AList.update i b (remoteMutedMap s)"
    and au: "audios ?s' = upd_at (audioEl e) (\<lambda>x. x\<lparr>el_muted := b\<rparr>) (audios s)"
    and pl: "pcs ?s' = pcs s"
    and st: "localStream ?s' = localStream s" "joined ?s' = joined s" "tracks ?s' = tracks s"
    using Some by (simp_all add: toggleRemoteMute_def b_def Let_def)
  from w have dk: "distinct (map fst (peers s))"
    and ok: "\<forall>p \<in> set (peers s). entry_ok s p"
    and da: "distinct (map (audioEl \<circ> snd) (peers s))"
    and dp: "distinct (map (pc \<circ> snd) (peers s))"
    and sy: "sync s"
    by (simp_all add: wf_state_def wf_peers_def list_all_iff)
  from Some have mem: "(i, e) \<in> set (peers s)"
    by (rule map_of_SomeD)
  with ok have oke: "entry_ok s (i, e)" by blast
  have 1: "distinct (map fst (peers ?s'))"
    using dk by (simp add: pe distinct_update)
  have new: "entry_ok ?s' (i, ?e)"
    using oke by (simp add: entry_ok_def au pl rm update_conv' nth_upd_at)
  have old: "entry_ok ?s' p" if "p \<in> set (peers s)" and "fst p \<noteq> i" for p
  proof -
    obtain j f where p: "p = (j, f)" by (cases p)
    from that p have "(j, f) \<in> set (peers s)" and ne: "j \<noteq> i" by simp_all
    moreover from da have "inj_on (audioEl \<circ> snd) (set (peers s))"
      by (simp add: distinct_map)
    ultimately have "audioEl f \<noteq> audioEl e"
      using mem inj_onD [of "audioEl \<circ> snd" "set (peers s)" "(j, f)" "(i, e)"] by auto
    with ok [rule_format, OF that(1)] ne p show ?thesis
      by (simp add: entry_ok_def au pl rm update_conv' nth_upd_at)
  qed
  have 2: "list_all (entry_ok ?s') (peers ?s')"
    using new old by (auto simp: list_all_iff pe set_update_distinct [OF dk])
  have 3: "distinct (map (audioEl \<circ> snd) (peers ?s'))"
    using da map_snd_update_same [OF Some, of audioEl ?e] by (simp add: pe)
  have 4: "distinct (map (pc \<circ> snd) (peers ?s'))"
    using dp map_snd_update_same [OF Some, of pc ?e] by (simp add: pe)
  have 5: "sync ?s'"
    using sy keys_update [of i b "remoteMutedMap s"] keys_update [of i ?e "peers s"]
    by (simp add: sync_def pe rm)
  from 1 2 3 4 5 have "wf_peers ?s'" by (simp add: wf_peers_def)
  moreover from w have "wf_stream ?s'"
    by (intro wf_stream_frame [of s ?s']) (simp_all add: st wf_state_def)
  ultimately show ?thesis by (simp add: wf_state_def)
qed

lemma wf_step: "wf_state s \<Longrightarrow> wf_state (step env ev s)"
  by (cases ev)
    (simp_all add: wf_handleOffer wf_handleAnswer wf_handleIce wf_usersEffect wf_handleUserLeft
      wf_onicecandidate wf_ontrack wf_joinVoice wf_leaveVoice wf_toggleLocalMute
      wf_toggleRemoteMute)

lemma reachable_wf: "reachable s \<Longrightarrow> wf_state s"
  by (induction rule: reachable.induct) (simp_all add: wf_initial wf_step)

subsection \<open>The mute map and the table\<close>

lemma sync_createPeerConnection:
  assumes "sync s"
  shows "sync (snd (createPeerConnection env i s))"
proof -
  let ?s' = "snd (createPeerConnection env i s)"
  let ?e = "\<lparr>pc = length (pcs s), audioEl = length (audios s), muted = False\<rparr>"
  from createPeerConnection_table [of env i s] show ?thesis
  proof (elim disjE exE conjE)
    fix e
    assume "peers ?s' = peers s" and "remoteMutedMap ?s' = remoteMutedMap s"
    with assms show ?thesis by (simp add: sync_def)
  next
    assume pe: "peers ?s' = AList.update i ?e (peers s)"
      and rm: "remoteMutedMap ?s' = AList.update i False (remoteMutedMap s)"
    show ?thesis
      using assms keys_update [of i False "remoteMutedMap s"] keys_update [of i ?e "peers s"]
      by (simp add: sync_def pe rm)
  qed
qed

lemma sync_cleanupPeer: "sync s \<Longrightarrow> sync (snd (cleanupPeer env i s))"
  using keys_delete [of i "remoteMutedMap s"] keys_delete [of i "peers s"]
  by (cases "map_of (peers s) i") (simp_all add: sync_def cleanupPeer_absent peers_cleanupPeer rmm_cleanupPeer)

lemma sync_fold_cleanupPeer: "sync s \<Longrightarrow> sync (fold (\<lambda>i x. snd (cleanupPeer env i x)) ks s)"
  by (induction ks arbitrary: s) (simp_all add: sync_cleanupPeer)

lemma sync_toggleRemoteMute:
  assumes "sync s"
  shows "sync (toggleRemoteMute i s)"
proof (cases "map_of (peers s) i")
  case None
  with assms show ?thesis by (simp add: toggleRemoteMute_def)
next
  case (Some e)
  define b where "b = (case map_of (remoteMutedMap s) i of None \<Rightarrow> True | Some x \<Rightarrow> \<not> x)"
  have pe: "peers (toggleRemoteMute i s) = AList.update i (e\<lparr>muted := b\<rparr>) (peers s)"
    and rm: "remoteMutedMap (toggleRemoteMute i s) = AList.update i b (remoteMutedMap s)"
    using Some by (simp_all add: toggleRemoteMute_def b_def Let_def)
  show ?thesis
    using assms keys_update [of i b "remoteMutedMap s"]
      keys_update [of i "e\<lparr>muted := b\<rparr>" "peers s"]
    by (simp add: sync_def pe rm)
qed

lemma sync_leaveVoice: "sync s \<Longrightarrow> sync (snd (leaveVoice env s))"
proof -
  let ?s2 = "case localStream s of
               None \<Rightarrow> s\<lparr>joined := False\<rparr>
             | Some st \<Rightarrow> s\<lparr>joined := False, tracks := stopTracks st (tracks s),
                             localStream := None\<rparr>"
  assume "sync s"
  then have "sync ?s2"
    by (simp add: sync_def split: option.splits)
  then have "sync (fold (\<lambda>i x. snd (cleanupPeer env i x)) (map fst (peers ?s2)) ?s2)"
    by (rule sync_fold_cleanupPeer)
  moreover have "snd (leaveVoice env s)
      = fold (\<lambda>i x. snd (cleanupPeer env i x)) (map fst (peers ?s2)) ?s2"
    by (simp add: leaveVoice_def Let_def split: option.splits)
  ultimately show ?thesis by simp
qed

lemma leaveVoice_remoteMutedMap: "sync s \<Longrightarrow> remoteMutedMap (snd (leaveVoice env s)) = []"
  using sync_leaveVoice [of s env] leaveVoice_peers [of env s]
  by (simp add: sync_def)

text \<open>
  Claim C10. The mute map and the table stay in sync: when their key sets are equal
  before a session build, a teardown, a remote-mute toggle or a leave, they are equal
  after it; and a session that has just been registered has its flag false, in the table
  and in the mute map.
\<close>

theorem mute_map_in_sync:
  assumes "sync s"
  shows "sync (snd (createPeerConnection env peerId s))
   \<and> sync (snd (cleanupPeer env peerId s))
   \<and> sync (toggleRemoteMute peerId s)
   \<and> sync (snd (leaveVoice env s))
   \<and> (\<forall>entry. fst (createPeerConnection env peerId s) = Inr entry \<longrightarrow>
         \<not> muted entry
         \<and> map_of (peers (snd (createPeerConnection env peerId s))) peerId = Some entry
         \<and> map_of (remoteMutedMap (snd (createPeerConnection env peerId s))) peerId
             = Some False)"
proof -
  have "\<not> muted entry
      \<and> map_of (peers (snd (createPeerConnection env peerId s))) peerId = Some entry
      \<and> map_of (remoteMutedMap (snd (createPeerConnection env peerId s))) peerId = Some False"
    if "fst (createPeerConnection env peerId s) = Inr entry" for entry
    using that createPeerConnection_table [of env peerId s]
    by (auto simp: update_conv')
  with assms show ?thesis
    by (simp add: sync_createPeerConnection sync_cleanupPeer sync_toggleRemoteMute
        sync_leaveVoice)
qed


text \<open>On the state an offer from B leaves, building a session for C.\<close>

theorem mute_map_in_sync_witness:
  "sync (snd (handleOffer env_ok ''o1'' ''B'' initial))
   \<and> sync (toggleRemoteMute ''B'' (snd (handleOffer env_ok ''o1'' ''B'' initial)))
   \<and> sync (snd (leaveVoice env_ok (snd (handleOffer env_ok ''o1'' ''B'' initial))))
   \<and> fst (createPeerConnection env_ok ''C'' (snd (handleOffer env_ok ''o1'' ''B'' initial)))
        = Inr \<lparr>pc = 1, audioEl = 1, muted = False\<rparr>
   \<and> map_of (remoteMutedMap
          (snd (createPeerConnection env_ok ''C'' (snd (handleOffer env_ok ''o1'' ''B'' initial)))))
        ''C'' = Some False"
proof -
  let ?s = "snd (handleOffer env_ok ''o1'' ''B'' initial)"
  have a: "sync ?s"
    by (simp add: after_offer sync_def)
  have b: "fst (createPeerConnection env_ok ''C'' ?s) = Inr \<lparr>pc = 1, audioEl = 1, muted = False\<rparr>"
    by (simp add: after_offer createPeerConnection_def Let_def)
  from mute_map_in_sync [OF a, of env_ok "''C''"] b
  have c: "map_of (remoteMutedMap (snd (createPeerConnection env_ok ''C'' ?s))) ''C'' = Some False"
    by blast
  from mute_map_in_sync [OF a, of env_ok "''B''"]
  have d: "sync (toggleRemoteMute ''B'' ?s) \<and> sync (snd (leaveVoice env_ok ?s))"
    by blast
  from a b c d show ?thesis by blast
qed

subsection \<open>Muting a remote peer\<close>

lemma toggleRemoteMute_frame:
  "emitted (toggleRemoteMute i s) = emitted s"
  "localStream (toggleRemoteMute i s) = localStream s"
  "tracks (toggleRemoteMute i s) = tracks s"
  "localMuted (toggleRemoteMute i s) = localMuted s"
  "joined (toggleRemoteMute i s) = joined s"
  "pcs (toggleRemoteMute i s) = pcs s"
  "audioContainer (toggleRemoteMute i s) = audioContainer s"
  "console (toggleRemoteMute i s) = console s"
  by (simp_all add: toggleRemoteMute_def Let_def split: option.splits)

lemma wf_peers_lookup:
  assumes "wf_peers s" and "map_of (peers s) i = Some e"
  shows "entry_ok s (i, e)"
proof -
  from assms(2) have "(i, e) \<in> set (peers s)"
    by (rule map_of_SomeD)
  moreover from assms(1) have "\<forall>p \<in> set (peers s). entry_ok s p"
    by (simp add: wf_peers_def list_all_iff)
  ultimately show ?thesis by blast
qed

lemma wf_peers_audioEl_distinct:
  assumes "wf_peers s" and "map_of (peers s) i = Some e" and "map_of (peers s) j = Some f"
    and "i \<noteq> j"
  shows "audioEl e \<noteq> audioEl f"
proof -
  from assms(1) have "inj_on (audioEl \<circ> snd) (set (peers s))"
    by (simp add: wf_peers_def distinct_map)
  moreover from assms have "(i, e) \<in> set (peers s)" and "(j, f) \<in> set (peers s)"
    by (simp_all add: map_of_SomeD)
  ultimately show ?thesis
    using \<open>i \<noteq> j\<close> inj_onD [of "audioEl \<circ> snd" "set (peers s)" "(i, e)" "(j, f)"] by auto
qed

text \<open>
  Claim C5. \<open>toggleRemoteMute\<close> is strictly local. It sends nothing and leaves the
  stream, the tracks, \<open>localMuted\<close>, \<open>joined\<close> and the connections as they are. For
  a peer without a session it is a no-op. For a peer with a session, in a well-formed
  table, it flips that session's flag, the \<open>muted\<close> attribute of that session's audio
  element and that peer's value in the mute map, and every other peer's session, audio
  element and mute-map value are unchanged.
\<close>

theorem toggleRemoteMute_local_only:
  "(map_of (peers s) peerId = None \<longrightarrow> toggleRemoteMute peerId s = s)
   \<and> emitted (toggleRemoteMute peerId s) = emitted s
   \<and> localStream (toggleRemoteMute peerId s) = localStream s
   \<and> tracks (toggleRemoteMute peerId s) = tracks s
   \<and> localMuted (toggleRemoteMute peerId s) = localMuted s
   \<and> joined (toggleRemoteMute peerId s) = joined s
   \<and> pcs (toggleRemoteMute peerId s) = pcs s
   \<and> (\<forall>entry. wf_peers s \<and> map_of (peers s) peerId = Some entry \<longrightarrow>
         map_of (peers (toggleRemoteMute peerId s)) peerId
           = Some (entry\<lparr>muted := \<not> muted entry\<rparr>)
         \<and> el_muted (audios (toggleRemoteMute peerId s) ! audioEl entry)
           = (\<not> el_muted (audios s ! audioEl entry))
         \<and> map_of (remoteMutedMap (toggleRemoteMute peerId s)) peerId
           = Some (\<not> muted entry)
         \<and> (\<forall>other e. other \<noteq> peerId \<and> map_of (peers s) other = Some e \<longrightarrow>
               map_of (peers (toggleRemoteMute peerId s)) other = Some e
               \<and> audios (toggleRemoteMute peerId s) ! audioEl e = audios s ! audioEl e
               \<and> map_of (remoteMutedMap (toggleRemoteMute peerId s)) other
                   = map_of (remoteMutedMap s) other))"
proof -
  have main: "map_of (peers (toggleRemoteMute peerId s)) peerId
           = Some (entry\<lparr>muted := \<not> muted entry\<rparr>)
         \<and> el_muted (audios (toggleRemoteMute peerId s) ! audioEl entry)
           = (\<not> el_muted (audios s ! audioEl entry))
         \<and> map_of (remoteMutedMap (toggleRemoteMute peerId s)) peerId
           = Some (\<not> muted entry)
         \<and> (\<forall>other e. other \<noteq> peerId \<and> map_of (peers s) other = Some e \<longrightarrow>
               map_of (peers (toggleRemoteMute peerId s)) other = Some e
               \<and> audios (toggleRemoteMute peerId s) ! audioEl e = audios s ! audioEl e
               \<and> map_of (remoteMutedMap (toggleRemoteMute peerId s)) other
                   = map_of (remoteMutedMap s) other)"
    if w: "wf_peers s" and l: "map_of (peers s) peerId = Some entry" for entry
  proof -
    from w l have ok: "entry_ok s (peerId, entry)"
      by (rule wf_peers_lookup)
    then have m: "map_of (remoteMutedMap s) peerId = Some (muted entry)"
      and r: "audioEl entry < length (audios s)"
      and a: "el_muted (audios s ! audioEl entry) = muted entry"
      by (simp_all add: entry_ok_def)
    have pe: "peers (toggleRemoteMute peerId s)
        = AList.update peerId (entry\<lparr>muted := \<not> muted entry\<rparr>) (peers s)"
      and rm: "remoteMutedMap (toggleRemoteMute peerId s)
        = AList.update peerId (\<not> muted entry) (remoteMutedMap s)"
      and au: "audios (toggleRemoteMute peerId s)
        = upd_at (audioEl entry) (\<lambda>x. x\<lparr>el_muted := \<not> muted entry\<rparr>) (audios s)"
      using l m by (simp_all add: toggleRemoteMute_def Let_def)
    have other: "audios (toggleRemoteMute peerId s) ! audioEl e = audios s ! audioEl e"
      if "other \<noteq> peerId" and "map_of (peers s) other = Some e" for other e
    proof -
      from w that l have "audioEl e \<noteq> audioEl entry"
        using wf_peers_audioEl_distinct [of s other e peerId entry] by simp
      moreover from w that have "audioEl e < length (audios s)"
        using wf_peers_lookup [of s other e] by (simp add: entry_ok_def)
      ultimately show ?thesis by (simp add: au nth_upd_at)
    qed
    have p1: "map_of (peers (toggleRemoteMute peerId s)) peerId
        = Some (entry\<lparr>muted := \<not> muted entry\<rparr>)"
      by (simp add: pe update_conv')
    have p2: "el_muted (audios (toggleRemoteMute peerId s) ! audioEl entry)
        = (\<not> el_muted (audios s ! audioEl entry))"
      using r a by (simp add: au nth_upd_at)
    have p3: "map_of (remoteMutedMap (toggleRemoteMute peerId s)) peerId = Some (\<not> muted entry)"
      by (simp add: rm update_conv')
    have p4: "map_of (peers (toggleRemoteMute peerId s)) other = Some e
        \<and> audios (toggleRemoteMute peerId s) ! audioEl e = audios s ! audioEl e
        \<and> map_of (remoteMutedMap (toggleRemoteMute peerId s)) other
            = map_of (remoteMutedMap s) other"
      if "other \<noteq> peerId" and "map_of (peers s) other = Some e" for other e
      using that other [OF that] by (simp add: pe rm update_conv')
    from p1 p2 p3 p4 show ?thesis by blast
  qed
  then have m: "\<forall>entry. wf_peers s \<and> map_of (peers s) peerId = Some entry \<longrightarrow>
         map_of (peers (toggleRemoteMute peerId s)) peerId
           = Some (entry\<lparr>muted := \<not> muted entry\<rparr>)
         \<and> el_muted (audios (toggleRemoteMute peerId s) ! audioEl entry)
           = (\<not> el_muted (audios s ! audioEl entry))
         \<and> map_of (remoteMutedMap (toggleRemoteMute peerId s)) peerId
           = Some (\<not> muted entry)
         \<and> (\<forall>other e. other \<noteq> peerId \<and> map_of (peers s) other = Some e \<longrightarrow>
               map_of (peers (toggleRemoteMute peerId s)) other = Some e
               \<and> audios (toggleRemoteMute peerId s) ! audioEl e = audios s ! audioEl e
               \<and> map_of (remoteMutedMap (toggleRemoteMute peerId s)) other
                   = map_of (remoteMutedMap s) other)"
    by blast
  have n: "map_of (peers s) peerId = None \<longrightarrow> toggleRemoteMute peerId s = s"
    by (simp add: toggleRemoteMute_def)
  show ?thesis
    apply (intro conjI)
           apply (rule n)
          apply (rule toggleRemoteMute_frame)+
    apply (rule m)
    done
qed

lemma after_two_offers:
  "snd (handleOffer env_ok ''o2'' ''C'' (snd (handleOffer env_ok ''o1'' ''B'' initial))) =
     \<lparr>localStream = Some [0],
      peers = [(''B'', \<lparr>pc = 0, audioEl = 0, muted = False\<rparr>),
               (''C'', \<lparr>pc = 1, audioEl = 1, muted = False\<rparr>)],
      joined = False, localMuted = False,
      remoteMutedMap = [(''B'', False), (''C'', False)],
      audioContainer = Some [0, 1],
      tracks = [\<lparr>kind = Audio, enabled = True, ended = False\<rparr>],
      pcs = [\<lparr>target = ''B'', sink = 0, pc_closed = False, senders = [0],
               remoteDescription = Some ''o1'', localDescription = Some ''answer'',
               candidates = []\<rparr>,
             \<lparr>target = ''C'', sink = 1, pc_closed = False, senders = [0],
               remoteDescription = Some ''o2'', localDescription = Some ''answer'',
               candidates = []\<rparr>],
      audios = [\<lparr>el_muted = False, srcObject = None\<rparr>, \<lparr>el_muted = False, srcObject = None\<rparr>],
      emitted = [VOICE_ANSWER ''answer'' ''B'', VOICE_ANSWER ''answer'' ''C''], console = []\<rparr>"
  by (simp add: after_offer)
    (simp add: handleOffer_def handleOffer_try_def createPeerConnection_def
      setRemoteDescription_def createAnswer_def setLocalDescription_def emit_def
      upd_at_def new_pc_def new_audio_def env_ok_def Let_def)

text \<open>With sessions for B and C: muting B, and muting D, who has no session.\<close>

theorem toggleRemoteMute_local_only_witness:
  "wf_peers (snd (handleOffer env_ok ''o2'' ''C'' (snd (handleOffer env_ok ''o1'' ''B'' initial))))
   \<and> map_of (peers (snd (handleOffer env_ok ''o2'' ''C''
          (snd (handleOffer env_ok ''o1'' ''B'' initial))))) ''B''
        = Some \<lparr>pc = 0, audioEl = 0, muted = False\<rparr>
   \<and> map_of (peers (toggleRemoteMute ''B'' (snd (handleOffer env_ok ''o2'' ''C''
          (snd (handleOffer env_ok ''o1'' ''B'' initial)))))) ''B''
        = Some \<lparr>pc = 0, audioEl = 0, muted = True\<rparr>
   \<and> map_of (peers (toggleRemoteMute ''B'' (snd (handleOffer env_ok ''o2'' ''C''
          (snd (handleOffer env_ok ''o1'' ''B'' initial)))))) ''C''
        = Some \<lparr>pc = 1, audioEl = 1, muted = False\<rparr>
   \<and> map_of (peers (snd (handleOffer env_ok ''o2'' ''C''
          (snd (handleOffer env_ok ''o1'' ''B'' initial))))) ''D'' = None
   \<and> toggleRemoteMute ''D'' (snd (handleOffer env_ok ''o2'' ''C''
          (snd (handleOffer env_ok ''o1'' ''B'' initial))))
        = snd (handleOffer env_ok ''o2'' ''C'' (snd (handleOffer env_ok ''o1'' ''B'' initial)))"
proof -
  let ?s = "snd (handleOffer env_ok ''o2'' ''C'' (snd (handleOffer env_ok ''o1'' ''B'' initial)))"
  let ?b = "\<lparr>pc = 0, audioEl = 0, muted = False\<rparr>"
  let ?c = "\<lparr>pc = 1, audioEl = 1, muted = False\<rparr>"
  have w: "wf_peers ?s"
    by (simp add: after_two_offers wf_peers_def entry_ok_def sync_def)
  have b: "map_of (peers ?s) ''B'' = Some ?b" and c: "map_of (peers ?s) ''C'' = Some ?c"
    and d: "map_of (peers ?s) ''D'' = None"
    by (simp_all add: after_two_offers)
  note t = toggleRemoteMute_local_only [of ?s "''B''"]
  from t w b have 1: "map_of (peers (toggleRemoteMute ''B'' ?s)) ''B''
      = Some (?b\<lparr>muted := \<not> muted ?b\<rparr>)"
    by blast
  have ne: "''C'' \<noteq> ''B''" by simp
  from t w b have "\<forall>other e. other \<noteq> ''B'' \<and> map_of (peers ?s) other = Some e \<longrightarrow>
      map_of (peers (toggleRemoteMute ''B'' ?s)) other = Some e"
    by blast
  then have "''C'' \<noteq> ''B'' \<and> map_of (peers ?s) ''C'' = Some ?c \<longrightarrow>
      map_of (peers (toggleRemoteMute ''B'' ?s)) ''C'' = Some ?c"
    by (elim allE)
  with ne c have 2: "map_of (peers (toggleRemoteMute ''B'' ?s)) ''C'' = Some ?c"
    by (elim impE) (rule conjI)
  from toggleRemoteMute_local_only [of ?s "''D''"] d
  have 3: "toggleRemoteMute ''D'' ?s = ?s"
    by blast
  from 1 have 4: "map_of (peers (toggleRemoteMute ''B'' ?s)) ''B''
      = Some \<lparr>pc = 0, audioEl = 0, muted = True\<rparr>"
    by simp
  from w b 4 2 d 3 show ?thesis by blast
qed


subsection \<open>Muting the microphone\<close>

lemma fold_upd_at_nth:
  "distinct xs \<Longrightarrow> t < length ts \<Longrightarrow>
     fold (\<lambda>i. upd_at i f) xs ts ! t = (if t \<in> set xs then f (ts ! t) else ts ! t)"
proof (induction xs arbitrary: ts)
  case Nil
  then show ?case by simp
next
  case (Cons x xs)
  from Cons.prems have "fold (\<lambda>i. upd_at i f) xs (upd_at x f ts) ! t
      = (if t \<in> set xs then f (upd_at x f ts ! t) else upd_at x f ts ! t)"
    by (intro Cons.IH) simp_all
  with Cons.prems show ?case
    by (auto simp: nth_upd_at)
qed

lemma length_fold_upd_at [simp]: "length (fold (\<lambda>i. upd_at i f) xs ts) = length ts"
  by (induction xs arbitrary: ts) simp_all

lemma toggleLocalMute_fields:
  "peers (toggleLocalMute s) = peers s"
  "remoteMutedMap (toggleLocalMute s) = remoteMutedMap s"
  "emitted (toggleLocalMute s) = emitted s"
  "joined (toggleLocalMute s) = joined s"
  "localStream (toggleLocalMute s) = localStream s"
  "length (tracks (toggleLocalMute s)) = length (tracks s)"
  by (simp_all add: toggleLocalMute_def split: option.splits)

lemma toggleLocalMute_track:
  assumes "localStream s = Some st" and "wf_stream s" and "t < length (tracks s)"
  shows "tracks (toggleLocalMute s) ! t =
     (if t \<in> set st \<and> kind (tracks s ! t) = Audio
      then (tracks s ! t)\<lparr>enabled := \<not> enabled (tracks s ! t)\<rparr> else tracks s ! t)"
proof -
  from assms have "distinct (getAudioTracks st (tracks s))"
    by (simp add: getAudioTracks_def wf_stream_def)
  from this assms(3) have "fold (\<lambda>i. upd_at i (\<lambda>x. x\<lparr>enabled := \<not> enabled x\<rparr>))
        (getAudioTracks st (tracks s)) (tracks s) ! t
      = (if t \<in> set (getAudioTracks st (tracks s))
         then (tracks s ! t)\<lparr>enabled := \<not> enabled (tracks s ! t)\<rparr> else tracks s ! t)"
    by (rule fold_upd_at_nth)
  with assms show ?thesis
    by (simp add: toggleLocalMute_def getAudioTracks_def)
qed

lemma toggleLocalMute_no_stream: "localStream s = None \<Longrightarrow> toggleLocalMute s = s"
  by (simp add: toggleLocalMute_def)

lemma toggleLocalMute_localMuted:
  "localStream s = Some st \<Longrightarrow> localMuted (toggleLocalMute s) = (\<not> localMuted s)"
  by (simp add: toggleLocalMute_def)

text \<open>
  Claim C4. \<open>toggleLocalMute\<close> requires \<open>joined\<close>. The component runs it from one place,
  the Mute button, which is disabled unless \<open>joined\<close>. Whenever the participant has not
  joined, the control is a no-op: the state is unchanged, and with it \<open>localMuted\<close> and
  every track. Whenever the participant has joined, in every state the component reaches,
  a stream is held and the control flips \<open>localMuted\<close> and the \<open>enabled\<close> state of every
  audio track of the held stream.
\<close>

theorem toggleLocalMute_requires_joined:
  "(\<not> joined s \<longrightarrow> clickMuteButton s = s)
   \<and> (reachable s \<and> joined s \<longrightarrow>
         (\<exists>st. localStream s = Some st
            \<and> localMuted (clickMuteButton s) = (\<not> localMuted s)
            \<and> (\<forall>t \<in> set st. kind (tracks s ! t) = Audio \<longrightarrow>
                  t < length (tracks s)
                  \<and> enabled (tracks (clickMuteButton s) ! t) = (\<not> enabled (tracks s ! t)))))"
proof (intro conjI impI)
  assume "\<not> joined s"
  then show "clickMuteButton s = s"
    by (simp add: clickMuteButton_def)
next
  assume "reachable s \<and> joined s"
  then have r: "reachable s" and j: "joined s"
    by simp_all
  from r have w: "wf_stream s"
    using reachable_wf [of s] by (simp add: wf_state_def)
  with j obtain st where st: "localStream s = Some st"
    by (auto simp: wf_stream_def)
  from j have c: "clickMuteButton s = toggleLocalMute s"
    by (simp add: clickMuteButton_def)
  have m: "localMuted (clickMuteButton s) = (\<not> localMuted s)"
    using st by (simp add: c toggleLocalMute_localMuted)
  have "t < length (tracks s)
      \<and> enabled (tracks (clickMuteButton s) ! t) = (\<not> enabled (tracks s ! t))"
    if "t \<in> set st" and "kind (tracks s ! t) = Audio" for t
  proof -
    from w st that(1) have "t < length (tracks s)"
      by (simp add: wf_stream_def list_all_iff)
    with st w that show ?thesis
      by (simp add: c toggleLocalMute_track)
  qed
  with st m show "\<exists>st. localStream s = Some st
      \<and> localMuted (clickMuteButton s) = (\<not> localMuted s)
      \<and> (\<forall>t \<in> set st. kind (tracks s ! t) = Audio \<longrightarrow>
            t < length (tracks s)
            \<and> enabled (tracks (clickMuteButton s) ! t) = (\<not> enabled (tracks s ! t)))"
    by blast
qed

text \<open>
  On the initial state; after an offer from B, which leaves a stream held and the
  participant not joined; and after joining with the microphone granted.
\<close>

theorem toggleLocalMute_requires_joined_witness:
  "\<not> joined initial \<and> clickMuteButton initial = initial
   \<and> \<not> joined (snd (handleOffer env_ok ''o1'' ''B'' initial))
   \<and> localStream (snd (handleOffer env_ok ''o1'' ''B'' initial)) = Some [0]
   \<and> clickMuteButton (snd (handleOffer env_ok ''o1'' ''B'' initial))
        = snd (handleOffer env_ok ''o1'' ''B'' initial)
   \<and> reachable (snd (joinVoice env_ok initial))
   \<and> joined (snd (joinVoice env_ok initial))
   \<and> localStream (snd (joinVoice env_ok initial)) = Some [0]
   \<and> kind (tracks (snd (joinVoice env_ok initial)) ! 0) = Audio
   \<and> enabled (tracks (snd (joinVoice env_ok initial)) ! 0)
   \<and> \<not> localMuted (snd (joinVoice env_ok initial))
   \<and> \<not> enabled (tracks (clickMuteButton (snd (joinVoice env_ok initial))) ! 0)
   \<and> localMuted (clickMuteButton (snd (joinVoice env_ok initial)))"
proof -
  let ?o = "snd (handleOffer env_ok ''o1'' ''B'' initial)"
  let ?s = "snd (joinVoice env_ok initial)"
  have j: "?s = initial\<lparr>tracks := [new_track], localStream := Some [0], joined := True,
               localMuted := False\<rparr>"
    by (simp add: joinVoice_def getUserMedia_def env_ok_def initial_def)
  have a: "\<not> joined initial"
    by (simp add: initial_def)
  have b: "\<not> joined ?o" and b': "localStream ?o = Some [0]"
    by (simp_all add: after_offer)
  have c: "localStream ?s = Some [0]" and e: "joined ?s"
    and f: "kind (tracks ?s ! 0) = Audio" and g: "enabled (tracks ?s ! 0)"
    and h: "\<not> localMuted ?s"
    by (simp_all add: j new_track_def)
  have r: "reachable ?s"
    using reachable_step [OF reachable_initial, of env_ok JoinVoice] by simp
  from toggleLocalMute_requires_joined [of initial] a
  have 1: "clickMuteButton initial = initial"
    by blast
  from toggleLocalMute_requires_joined [of ?o] b
  have 2: "clickMuteButton ?o = ?o"
    by blast
  from toggleLocalMute_requires_joined [of ?s] r e
  obtain st where st: "localStream ?s = Some st"
    and m: "localMuted (clickMuteButton ?s) = (\<not> localMuted ?s)"
    and tr: "\<forall>t \<in> set st. kind (tracks ?s ! t) = Audio \<longrightarrow>
        t < length (tracks ?s)
        \<and> enabled (tracks (clickMuteButton ?s) ! t) = (\<not> enabled (tracks ?s ! t))"
    by blast
  from st c have "st = [0]"
    by simp
  with tr have "kind (tracks ?s ! 0) = Audio \<longrightarrow>
      enabled (tracks (clickMuteButton ?s) ! 0) = (\<not> enabled (tracks ?s ! 0))"
    by simp
  with f g have 3: "\<not> enabled (tracks (clickMuteButton ?s) ! 0)"
    by blast
  from m h have 4: "localMuted (clickMuteButton ?s)"
    by simp
  from a 1 b b' 2 r e c f g h 3 4 show ?thesis
    by (intro conjI)
qed

subsection \<open>A second offer from the same peer\<close>

text \<open>
  A successful \<open>createPeerConnection\<close> always returns a connection and an audio element
  it has just created, whatever the table holds. The membership effect skips a user who
  already has an entry; \<open>handleOffer\<close> has no such test.
\<close>

lemma createPeerConnection_always_new:
  "fst (createPeerConnection env i s) = Inr e \<Longrightarrow>
     pc e = length (pcs s) \<and> audioEl e = length (audios s)"
  using createPeerConnection_table [of env i s] by auto

lemma offerUser_start_existing:
  "map_of (peers s) i = Some e \<Longrightarrow>
     offerUser_start socketId (Some i) (s, waiting) = (s, waiting)"
  by (simp add: offerUser_start_def)

lemma after_second_offer:
  "snd (handleOffer env_ok ''o2'' ''B'' (snd (handleOffer env_ok ''o1'' ''B'' initial))) =
     \<lparr>localStream = Some [0],
      peers = [(''B'', \<lparr>pc = 1, audioEl = 1, muted = False\<rparr>)],
      joined = False, localMuted = False,
      remoteMutedMap = [(''B'', False)],
      audioContainer = Some [0, 1],
      tracks = [\<lparr>kind = Audio, enabled = True, ended = False\<rparr>],
      pcs = [\<lparr>target = ''B'', sink = 0, pc_closed = False, senders = [0],
               remoteDescription = Some ''o1'', localDescription = Some ''answer'',
               candidates = []\<rparr>,
             \<lparr>target = ''B'', sink = 1, pc_closed = False, senders = [0],
               remoteDescription = Some ''o2'', localDescription = Some ''answer'',
               candidates = []\<rparr>],
      audios = [\<lparr>el_muted = False, srcObject = None\<rparr>, \<lparr>el_muted = False, srcObject = None\<rparr>],
      emitted = [VOICE_ANSWER ''answer'' ''B'', VOICE_ANSWER ''answer'' ''B''], console = []\<rparr>"
  by (simp add: after_offer)
    (simp add: handleOffer_def handleOffer_try_def createPeerConnection_def
      setRemoteDescription_def createAnswer_def setLocalDescription_def emit_def
      upd_at_def new_pc_def new_audio_def env_ok_def Let_def)

text \<open>
  Claim C1 (a second build request for a peer returns the existing session and creates
  no transport and no sink), evaluated on two offers from B in a row with the microphone
  granted. The first offer registers connection 0 and audio element 0 for B. The second
  creates connection 1 and audio element 1 and registers them in place of the first:
  both connections to B are open and both audio elements are in the container. Teardown
  of B then closes connection 1 only; connection 0 stays open and audio element 0 stays
  in the container, and no entry refers to them.
\<close>

theorem handleOffer_existing_peer_rebuilds:
  "map_of (peers (snd (handleOffer env_ok ''o1'' ''B'' initial))) ''B''
     = Some \<lparr>pc = 0, audioEl = 0, muted = False\<rparr>
   \<and> map_of (peers (snd (handleOffer env_ok ''o2'' ''B''
          (snd (handleOffer env_ok ''o1'' ''B'' initial))))) ''B''
     = Some \<lparr>pc = 1, audioEl = 1, muted = False\<rparr>
   \<and> length (pcs (snd (handleOffer env_ok ''o2'' ''B''
          (snd (handleOffer env_ok ''o1'' ''B'' initial))))) = 2
   \<and> map (\<lambda>c. (target c, pc_closed c)) (pcs (snd (handleOffer env_ok ''o2'' ''B''
          (snd (handleOffer env_ok ''o1'' ''B'' initial)))))
     = [(''B'', False), (''B'', False)]
   \<and> audioContainer (snd (handleOffer env_ok ''o2'' ''B''
          (snd (handleOffer env_ok ''o1'' ''B'' initial)))) = Some [0, 1]
   \<and> map pc_closed (pcs (snd (cleanupPeer env_ok ''B'' (snd (handleOffer env_ok ''o2'' ''B''
          (snd (handleOffer env_ok ''o1'' ''B'' initial)))))))
     = [False, True]
   \<and> audioContainer (snd (cleanupPeer env_ok ''B'' (snd (handleOffer env_ok ''o2'' ''B''
          (snd (handleOffer env_ok ''o1'' ''B'' initial)))))) = Some [0]"
proof -
  let ?s1 = "snd (handleOffer env_ok ''o1'' ''B'' initial)"
  let ?s2 = "snd (handleOffer env_ok ''o2'' ''B'' ?s1)"
  have 1: "map_of (peers ?s1) ''B'' = Some \<lparr>pc = 0, audioEl = 0, muted = False\<rparr>"
    by (simp add: after_offer)
  have 2: "map_of (peers ?s2) ''B'' = Some \<lparr>pc = 1, audioEl = 1, muted = False\<rparr>"
    and 3: "length (pcs ?s2) = 2"
    and 4: "map (\<lambda>c. (target c, pc_closed c)) (pcs ?s2) = [(''B'', False), (''B'', False)]"
    and 5: "audioContainer ?s2 = Some [0, 1]"
    by (simp_all add: after_second_offer)
  have 6: "map pc_closed (pcs (snd (cleanupPeer env_ok ''B'' ?s2))) = [False, True]"
    and 7: "audioContainer (snd (cleanupPeer env_ok ''B'' ?s2)) = Some [0]"
    by (simp_all add: after_second_offer)
      (simp_all add: cleanupPeer_def pc_close_def detach_audio_def upd_at_def env_ok_def
        Let_def)
  from 1 2 3 4 5 6 7 show ?thesis
    by (intro conjI)
qed

end
